theory Spec2Isabelle
  imports Main
begin

section \<open>JavaScript values used by the service\<close>

text \<open>
  A JavaScript string is modelled as a \<^typ>\<open>string\<close>, one \<^typ>\<open>char\<close> per code unit
  (so the model covers the code units U+0000 to U+00FF). A property that may be
  \<^verbatim>\<open>undefined\<close> or \<^verbatim>\<open>null\<close> is an \<^typ>\<open>'a option\<close>. A thrown \<^verbatim>\<open>Error\<close> is
  represented by its \<^verbatim>\<open>message\<close>, the only part of it the code reads.
\<close>

type_synonym js_error = string

definition nl :: string where
  "nl = [CHR 0x0A]"

definition dquote :: string where
  "dquote = [CHR 0x22]"

definition squote :: string where
  "squote = [CHR 0x27]"

text \<open>Truthiness of an optional string: \<^verbatim>\<open>undefined\<close>, \<^verbatim>\<open>null\<close> and \<^verbatim>\<open>''\<close> are falsy.\<close>

fun truthy :: "string option \<Rightarrow> bool" where
  "truthy None = False"
| "truthy (Some s) = (s \<noteq> [])"

text \<open>String conversion in a concatenation: \<^verbatim>\<open>undefined + '\n'\<close> is \<^verbatim>\<open>'undefined\n'\<close>.\<close>

fun to_str :: "string option \<Rightarrow> string" where
  "to_str None = ''undefined''"
| "to_str (Some s) = s"

text \<open>Reading a property of \<^verbatim>\<open>undefined\<close> throws a \<^verbatim>\<open>TypeError\<close> with this message (V8).\<close>

definition type_error :: "string \<Rightarrow> js_error" where
  "type_error prop = ''Cannot read properties of undefined (reading '' @ squote @ prop @ squote @ '')''"

text \<open>\<^verbatim>\<open>String.prototype.trim\<close> on code units up to U+00FF.\<close>

definition is_space :: "char \<Rightarrow> bool" where
  "is_space c = (c \<in> {CHR 0x09, CHR 0x0A, CHR 0x0B, CHR 0x0C, CHR 0x0D, CHR 0x20, CHR 0xA0})"

definition trim :: "string \<Rightarrow> string" where
  "trim s = rev (dropWhile is_space (rev (dropWhile is_space s)))"

text \<open>\<^verbatim>\<open>!s || s.trim() === ''\<close>, for a value that is absent or a string.\<close>

fun blank :: "string option \<Rightarrow> bool" where
  "blank None = True"
| "blank (Some s) = (s = [] \<or> trim s = [])"

fun startsWith :: "string \<Rightarrow> string \<Rightarrow> bool" where
  "startsWith s [] = True"
| "startsWith [] (p # ps) = False"
| "startsWith (c # cs) (p # ps) = (c = p \<and> startsWith cs ps)"

fun includes_str :: "string \<Rightarrow> string \<Rightarrow> bool" where
  "includes_str [] p = (p = [])"
| "includes_str (c # cs) p = (startsWith (c # cs) p \<or> includes_str cs p)"

section \<open>The document store: blocks and paginated listing\<close>

record rich_text_item =
  plain_text :: "string option"

record block_body =
  rich_text :: "rich_text_item list option"

text \<open>
  A block as the store returns it: its \<^verbatim>\<open>type\<close> and, for the four types the code reads,
  the property of that name (\<open>paragraph_of\<close> is \<^verbatim>\<open>block.paragraph\<close>, and so on), absent on
  blocks of another type.
\<close>

record block =
  block_type :: string
  paragraph_of :: "block_body option"
  heading_1_of :: "block_body option"
  heading_2_of :: "block_body option"
  heading_3_of :: "block_body option"

type_synonym cursor = "string option"

record list_response =
  results :: "block list"
  next_cursor :: cursor

text \<open>The blocks the service appends: a paragraph (text, bold) or a code block (text, language).\<close>

datatype new_block = NewParagraph string bool | NewCode string string

text \<open>
  The client of the document store: \<^verbatim>\<open>blocks.children.list({block_id, start_cursor, page_size})\<close>
  and \<^verbatim>\<open>blocks.children.append({block_id, children})\<close>; each either rejects with an
  error or resolves.
\<close>

record notion_client =
  children_list :: "string \<Rightarrow> cursor \<Rightarrow> nat \<Rightarrow> js_error + list_response"
  children_append :: "string \<Rightarrow> new_block list \<Rightarrow> js_error + unit"

text \<open>The calls a request makes to its collaborators, in order.\<close>

datatype event =
    ListChildren string cursor nat
  | AppendChildren string "new_block list"
  | GenerateContent string
  | Fetch string

fun is_list :: "event \<Rightarrow> bool" where
  "is_list (ListChildren _ _ _) = True"
| "is_list _ = False"

fun is_append :: "event \<Rightarrow> bool" where
  "is_append (AppendChildren _ _) = True"
| "is_append _ = False"

fun is_generate :: "event \<Rightarrow> bool" where
  "is_generate (GenerateContent _) = True"
| "is_generate _ = False"

section \<open>Extraction, \<^verbatim>\<open>server.js\<close>\<close>

text \<open>
  The \<^verbatim>\<open>do ... while (cursor)\<close> loop of \<^verbatim>\<open>fetchNotionPageContent\<close> (both files): one call
  per page, the results appended to the blocks so far, until the returned cursor is falsy.
  The loop has no bound, so it is a partial function: \<^term>\<open>None\<close> is a loop that never ends.
  A rejected call leaves the loop with the error.
\<close>

partial_function (option) list_loop ::
  "notion_client \<Rightarrow> string \<Rightarrow> cursor \<Rightarrow> block list \<Rightarrow> event list
    \<Rightarrow> ((js_error + block list) \<times> event list) option" where
  "list_loop notion pageId cursor blocks tr =
     (case children_list notion pageId cursor 100 of
        Inl e \<Rightarrow> Some (Inl e, tr @ [ListChildren pageId cursor 100])
      | Inr response \<Rightarrow>
          if truthy (next_cursor response)
          then list_loop notion pageId (next_cursor response) (blocks @ results response)
                 (tr @ [ListChildren pageId cursor 100])
          else Some (Inr (blocks @ results response), tr @ [ListChildren pageId cursor 100]))"

text \<open>The inner \<^verbatim>\<open>forEach\<close> of the paragraph branch: a span with a truthy text adds it and a newline.\<close>

definition paragraph_spans :: "rich_text_item list \<Rightarrow> string \<Rightarrow> string" where
  "paragraph_spans spans content =
     foldl (\<lambda>c t. if truthy (plain_text t) then c @ the (plain_text t) @ nl else c) content spans"

text \<open>The inner \<^verbatim>\<open>forEach\<close> of the heading branches: every span adds its text and a newline.\<close>

definition heading_spans :: "rich_text_item list \<Rightarrow> string \<Rightarrow> string" where
  "heading_spans spans content = foldl (\<lambda>c t. c @ to_str (plain_text t) @ nl) content spans"

text \<open>
  One heading branch, \<^verbatim>\<open>block.type === 'heading_n' && block.heading_n.rich_text\<close>: reading
  \<^verbatim>\<open>rich_text\<close> of a missing property throws; a falsy \<^verbatim>\<open>rich_text\<close> falls through the
  remaining branches, none of which matches the type.
\<close>

definition heading_branch :: "block_body option \<Rightarrow> string \<Rightarrow> js_error + string" where
  "heading_branch b content =
     (case b of
        None \<Rightarrow> Inl (type_error ''rich_text'')
      | Some h \<Rightarrow> (case rich_text h of
                     None \<Rightarrow> Inr content
                   | Some spans \<Rightarrow> Inr (heading_spans spans content)))"

text \<open>The body of the outer \<^verbatim>\<open>blocks.forEach\<close>, \<^verbatim>\<open>server.js\<close> lines 62 to 77.\<close>

definition block_step :: "block \<Rightarrow> string \<Rightarrow> js_error + string" where
  "block_step b content =
     (if block_type b = ''paragraph'' then
        (case paragraph_of b of
           None \<Rightarrow> Inl (type_error ''rich_text'')
         | Some p \<Rightarrow> (case rich_text p of
                        None \<Rightarrow> Inr content
                      | Some spans \<Rightarrow> Inr (paragraph_spans spans content)))
      else if block_type b = ''heading_1'' then heading_branch (heading_1_of b) content
      else if block_type b = ''heading_2'' then heading_branch (heading_2_of b) content
      else if block_type b = ''heading_3'' then heading_branch (heading_3_of b) content
      else Inr content)"

fun forEach_blocks :: "block list \<Rightarrow> string \<Rightarrow> js_error + string" where
  "forEach_blocks [] content = Inr content"
| "forEach_blocks (b # bs) content =
     (case block_step b content of
        Inl e \<Rightarrow> Inl e
      | Inr content' \<Rightarrow> forEach_blocks bs content')"

text \<open>The \<^verbatim>\<open>catch\<close> of \<^verbatim>\<open>fetchNotionPageContent\<close> (both files).\<close>

definition fetch_failed :: "js_error \<Rightarrow> js_error" where
  "fetch_failed msg = ''Failed to fetch content from Notion page: '' @ msg"

text \<open>\<^verbatim>\<open>fetchNotionPageContent\<close>, \<^verbatim>\<open>server.js\<close> lines 44 to 83.\<close>

definition fetchNotionPageContent ::
  "notion_client option \<Rightarrow> string \<Rightarrow> ((js_error + string) \<times> event list) option" where
  "fetchNotionPageContent notion pageId =
     (case notion of
        None \<Rightarrow> Some (Inl ''Notion client is not initialized. Check NOTION_API_KEY.'', [])
      | Some client \<Rightarrow>
          (case list_loop client pageId None [] [] of
             None \<Rightarrow> None
           | Some (Inl e, tr) \<Rightarrow> Some (Inl (fetch_failed e), tr)
           | Some (Inr blocks, tr) \<Rightarrow>
               (case forEach_blocks blocks [] of
                  Inl e \<Rightarrow> Some (Inl (fetch_failed e), tr)
                | Inr content \<Rightarrow> Some (Inr content, tr))))"

section \<open>Extraction, \<^verbatim>\<open>part_000\<close>\<close>

text \<open>
  The body of the \<^verbatim>\<open>forEach\<close> of \<^verbatim>\<open>extractTextFromBlocks\<close>: only paragraphs are read;
  \<^verbatim>\<open>rich_text.length\<close> throws when the paragraph property or its \<^verbatim>\<open>rich_text\<close> is missing;
  \<^verbatim>\<open>join('')\<close> renders a missing \<^verbatim>\<open>plain_text\<close> as the empty string.
\<close>

fun join_str :: "string option \<Rightarrow> string" where
  "join_str None = []"
| "join_str (Some s) = s"

definition extract_step :: "block \<Rightarrow> string \<Rightarrow> js_error + string" where
  "extract_step b text =
     (if block_type b = ''paragraph'' then
        (case paragraph_of b of
           None \<Rightarrow> Inl (type_error ''rich_text'')
         | Some p \<Rightarrow> (case rich_text p of
                        None \<Rightarrow> Inl (type_error ''length'')
                      | Some spans \<Rightarrow>
                          if length spans > 0
                          then Inr (text @ concat (map (\<lambda>rt. join_str (plain_text rt)) spans) @ nl)
                          else Inr text))
      else Inr text)"

fun extract_loop :: "block list \<Rightarrow> string \<Rightarrow> js_error + string" where
  "extract_loop [] text = Inr text"
| "extract_loop (b # bs) text =
     (case extract_step b text of
        Inl e \<Rightarrow> Inl e
      | Inr text' \<Rightarrow> extract_loop bs text')"

definition extractTextFromBlocks :: "block list \<Rightarrow> js_error + string" where
  "extractTextFromBlocks blocks = extract_loop blocks []"

text \<open>\<^verbatim>\<open>fetchNotionPageContent\<close>, \<^verbatim>\<open>part_000\<close> lines 298 to 321.\<close>

definition fetchNotionPageContent_part000 ::
  "notion_client \<Rightarrow> string \<Rightarrow> ((js_error + string) \<times> event list) option" where
  "fetchNotionPageContent_part000 notion pageId =
     (case list_loop notion pageId None [] [] of
        None \<Rightarrow> None
      | Some (Inl e, tr) \<Rightarrow> Some (Inl (fetch_failed e), tr)
      | Some (Inr allBlocks, tr) \<Rightarrow>
          (case extractTextFromBlocks allBlocks of
             Inl e \<Rightarrow> Some (Inl (fetch_failed e), tr)
           | Inr text \<Rightarrow> Some (Inr text, tr)))"

section \<open>The generator, the requests and the replies\<close>

text \<open>
  \<^verbatim>\<open>model.generateContent(prompt)\<close> followed by \<^verbatim>\<open>result.response.text()\<close>: the generated
  text, or the error either of them throws.
\<close>

record gen_model =
  generateContent :: "string \<Rightarrow> js_error + string"

text \<open>What \<^verbatim>\<open>fetch\<close> resolves to: \<^verbatim>\<open>ok\<close>, \<^verbatim>\<open>status\<close> and the outcome of \<^verbatim>\<open>text()\<close>.\<close>

record http_response =
  ok :: bool
  status :: nat
  text_body :: "js_error + string"

text \<open>
  The process environment and the remote services behind the clients. A client exists
  when its key is set; the services are the same whichever file constructs the client.
\<close>

record env =
  NOTION_API_KEY :: "string option"
  GEMINI_API_KEY :: "string option"
  notion_api :: notion_client
  gemini_api :: gen_model
  fetch :: "string \<Rightarrow> js_error + http_response"

text \<open>
  The request body after \<^verbatim>\<open>const { content, action, notionPageId } = req.body\<close>; each
  field is a string or absent.
\<close>

record request =
  content :: "string option"
  action :: "string option"
  notionPageId :: "string option"

datatype json = JString string | JBool bool

text \<open>\<^verbatim>\<open>res.status(code).json(body)\<close>; \<^verbatim>\<open>res.json(body)\<close> sends status 200.\<close>

record reply =
  code :: nat
  json_body :: "(string \<times> json) list"

section \<open>The request handler of \<^verbatim>\<open>server.js\<close>\<close>

text \<open>Lines 19 to 37: the module-level clients.\<close>

definition notion :: "env \<Rightarrow> notion_client option" where
  "notion e = (if truthy (NOTION_API_KEY e) then Some (notion_api e) else None)"

definition model :: "env \<Rightarrow> gen_model option" where
  "model e = (if truthy (GEMINI_API_KEY e) then Some (gemini_api e) else None)"

text \<open>\<^verbatim>\<open>appendContentToNotion\<close>, lines 90 to 119.\<close>

definition appendContentToNotion ::
  "notion_client option \<Rightarrow> string \<Rightarrow> string \<Rightarrow> (js_error + unit) \<times> event list" where
  "appendContentToNotion client pageId text =
     (case client of
        None \<Rightarrow> (Inl ''Notion client is not initialized. Check NOTION_API_KEY.'', [])
      | Some c \<Rightarrow>
          (case children_append c pageId [NewParagraph text False] of
             Inl e \<Rightarrow> (Inl (''Failed to append content to Notion: '' @ e),
                        [AppendChildren pageId [NewParagraph text False]])
           | Inr u \<Rightarrow> (Inr (), [AppendChildren pageId [NewParagraph text False]])))"

text \<open>The \<^verbatim>\<open>switch (action)\<close> of lines 156 to 174; \<^term>\<open>None\<close> is the \<^verbatim>\<open>default\<close> branch.\<close>

definition switch_action :: "string option \<Rightarrow> string \<Rightarrow> string option" where
  "switch_action act contentToProcess =
     (if act = Some ''summarize''
      then Some (''Summarize the following content concisely:'' @ nl @ nl @ contentToProcess)
      else if act = Some ''brainstorm''
      then Some (''Brainstorm ideas related to the following content:'' @ nl @ nl @ contentToProcess)
      else if act = Some ''action_items''
      then Some (''Extract key action items from the following content:'' @ nl @ nl @ contentToProcess)
      else if act = Some ''expand''
      then Some (''Expand on the following content in detail:'' @ nl @ nl @ contentToProcess)
      else if act = Some ''rewrite''
      then Some (''Rewrite the following content to be clearer and more engaging:'' @ nl @ nl
                  @ contentToProcess)
      else None)"

definition error_reply :: "nat \<Rightarrow> string \<Rightarrow> reply" where
  "error_reply c msg = \<lparr>code = c, json_body = [(''error'', JString msg)]\<rparr>"

text \<open>The \<^verbatim>\<open>catch\<close> of the handler, lines 187 to 190.\<close>

definition respond_failed :: "js_error \<Rightarrow> reply" where
  "respond_failed msg = error_reply 500 (''Failed to process request: '' @ msg)"

text \<open>Lines 176 to 185: the generator call, then the append, then the reply.\<close>

definition generate_and_append ::
  "notion_client option \<Rightarrow> gen_model \<Rightarrow> string \<Rightarrow> string \<Rightarrow> event list \<Rightarrow> reply \<times> event list" where
  "generate_and_append client m pageId prompt tr =
     (case generateContent m prompt of
        Inl e \<Rightarrow> (respond_failed e, tr @ [GenerateContent prompt])
      | Inr geminiResponse \<Rightarrow>
          (case appendContentToNotion client pageId geminiResponse of
             (Inl e, tr') \<Rightarrow> (respond_failed e, tr @ [GenerateContent prompt] @ tr')
           | (Inr u, tr') \<Rightarrow>
               (\<lparr>code = 200,
                 json_body = [(''message'', JString ''Content processed and appended to Notion.''),
                              (''geminiResponse'', JString geminiResponse)]\<rparr>,
                tr @ [GenerateContent prompt] @ tr')))"

text \<open>Lines 155 to 185: the handler from the moment \<^verbatim>\<open>contentToProcess\<close> is settled.\<close>

definition process_content ::
  "notion_client option \<Rightarrow> gen_model \<Rightarrow> string \<Rightarrow> string option \<Rightarrow> string \<Rightarrow> event list
    \<Rightarrow> reply \<times> event list" where
  "process_content client m pageId act contentToProcess tr =
     (case switch_action act contentToProcess of
        None \<Rightarrow> (error_reply 400 ''Invalid AI action specified.'', tr)
      | Some prompt \<Rightarrow> generate_and_append client m pageId prompt tr)"

text \<open>
  The handler of \<^verbatim>\<open>POST /process-notion-content\<close>, lines 122 to 191: the reply and the
  calls made, or \<^term>\<open>None\<close> when the listing loop never ends.
\<close>

definition process_notion_content :: "env \<Rightarrow> request \<Rightarrow> (reply \<times> event list) option" where
  "process_notion_content e req =
     (case notionPageId req of
        None \<Rightarrow> Some (error_reply 400 ''Notion Page ID is required.'', [])
      | Some pageId \<Rightarrow>
          if pageId = [] then Some (error_reply 400 ''Notion Page ID is required.'', [])
          else (case model e of
             None \<Rightarrow> Some (error_reply 500 ''Gemini model not initialized. Check GEMINI_API_KEY.'', [])
           | Some m \<Rightarrow>
               if notion e = None
               then Some (error_reply 500 ''Notion client not initialized. Check NOTION_API_KEY.'', [])
               else if blank (content req) then
                 (case fetchNotionPageContent (notion e) pageId of
                    None \<Rightarrow> None
                  | Some (Inl err, tr) \<Rightarrow> Some (respond_failed err, tr)
                  | Some (Inr fetched, tr) \<Rightarrow>
                      if blank (Some fetched)
                      then Some (error_reply 400
                        ''No readable content found on the specified Notion page to process.'', tr)
                      else Some (process_content (notion e) m pageId (action req) fetched tr))
               else Some (process_content (notion e) m pageId (action req) (the (content req)) [])))"

section \<open>The request handler of \<^verbatim>\<open>part_000\<close>, lines 28 to 185\<close>

text \<open>\<^verbatim>\<open>encodeURIComponent\<close> on code units up to U+00FF: UTF-8, percent-encoded.\<close>

definition uri_unreserved :: "char \<Rightarrow> bool" where
  "uri_unreserved c =
     (c \<in> set ''ABCDEFGHIJKLMNOPQRSTUVWXYZabcdefghijklmnopqrstuvwxyz0123456789-_.!~*()''
      \<or> c = CHR 0x27)"

definition percent :: "nat \<Rightarrow> string" where
  "percent n = [CHR ''%'', ''0123456789ABCDEF'' ! (n div 16), ''0123456789ABCDEF'' ! (n mod 16)]"

definition encode_unit :: "char \<Rightarrow> string" where
  "encode_unit c =
     (if uri_unreserved c then [c]
      else if (of_char c :: nat) < 128 then percent (of_char c)
      else percent (192 + of_char c div 64) @ percent (128 + of_char c mod 64))"

definition encodeURIComponent :: "string \<Rightarrow> string" where
  "encodeURIComponent s = concat (map encode_unit s)"

text \<open>A number in a template literal: its decimal digits.\<close>

fun show_nat :: "nat \<Rightarrow> string" where
  "show_nat n =
     (if n < 10 then [''0123456789'' ! n]
      else show_nat (n div 10) @ [''0123456789'' ! (n mod 10)])"

declare show_nat.simps [simp del]

definition indent :: string where
  "indent = replicate 16 (CHR '' '')"

text \<open>
  The \<^verbatim>\<open>switch (action)\<close> of lines 84 to 120. The \<^verbatim>\<open>rephrase\<close> template reads the
  variable \<^verbatim>\<open>contentForLLLLM\<close>, which is declared nowhere: evaluating it throws a
  \<^verbatim>\<open>ReferenceError\<close>.
\<close>

definition switch_action_part000 :: "string option \<Rightarrow> string option \<Rightarrow> string \<Rightarrow> js_error + string" where
  "switch_action_part000 act question contentForLLM =
     (if act = Some ''summarize''
      then Inr (''Provide a concise, high-level summary of the main points and key takeaways from the following text. Keep it to 3-5 bullet points or a short paragraph. Format using Notion-compatible markdown.''
                @ nl @ indent @ ''---'' @ nl @ indent @ contentForLLM)
      else if act = Some ''notes''
      then Inr (''Extract the most important facts, key concepts, and structured notes from the following text. Present them clearly using Notion-compatible markdown-formatted bulleted or numbered lists.''
                @ nl @ indent @ ''---'' @ nl @ indent @ contentForLLM)
      else if act = Some ''quiz''
      then Inr (''Generate one challenging multiple-choice question with 4 options (A, B, C, D) and clearly indicate the correct answer at the end (e.g., ''
                @ dquote @ ''Correct Answer: B'' @ dquote
                @ '') based on the following text. Format using Notion-compatible markdown.''
                @ nl @ indent @ ''---'' @ nl @ indent @ contentForLLM)
      else if act = Some ''ask_question''
      then Inr (''Based on the following text, answer the question: '' @ dquote @ to_str question @ dquote
                @ ''. If the answer is not in the provided content, state that. Format using Notion-compatible markdown.''
                @ nl @ indent @ ''---'' @ nl @ indent @ contentForLLM)
      else if act = Some ''brainstorm''
      then Inr (''Based on the following text, brainstorm 3-5 creative ideas, applications, or related concepts. Present them as a Notion-compatible markdown bulleted list.''
                @ nl @ indent @ ''---'' @ nl @ indent @ contentForLLM)
      else if act = Some ''rephrase''
      then Inl ''contentForLLLLM is not defined''
      else Inr (''Analyze the following text and provide a general overview. Format using Notion-compatible markdown: ''
                @ contentForLLM))"

text \<open>The outer \<^verbatim>\<open>catch\<close>, lines 181 to 184.\<close>

definition respond_unexpected :: "js_error \<Rightarrow> reply" where
  "respond_unexpected msg =
     \<lparr>code = 500,
      json_body = [(''error'', JString ''An unexpected error occurred during AI processing or Notion interaction.''),
                   (''details'', JString msg)]\<rparr>"

text \<open>The inner \<^verbatim>\<open>catch\<close> of the URL branch, lines 69 to 72.\<close>

definition respond_url_failed :: "string \<Rightarrow> js_error \<Rightarrow> reply" where
  "respond_url_failed url msg =
     \<lparr>code = 400,
      json_body = [(''error'', JString (''Could not fetch content from URL: '' @ url @ ''.'')),
                   (''details'', JString msg)]\<rparr>"

text \<open>\<^verbatim>\<open>action.replace(/_/g, ' ')\<close>\<close>

definition replace_underscores :: "string \<Rightarrow> string" where
  "replace_underscores s = map (\<lambda>c. if c = CHR ''_'' then CHR '' '' else c) s"

text \<open>Lines 135 to 166: the two blocks appended, a bold label and the output as a code block.\<close>

definition notionBlocks :: "string \<Rightarrow> string \<Rightarrow> new_block list" where
  "notionBlocks act generatedContent =
     [NewParagraph (''**AI Output ('' @ replace_underscores act @ ''):**'' @ nl @ nl) True,
      NewCode generatedContent ''markdown'']"

text \<open>
  Lines 128 to 179: writing the generated content back, and the reply. Building the label
  calls \<^verbatim>\<open>action.replace\<close>, which throws when the request has no action.
\<close>

definition write_back ::
  "notion_client \<Rightarrow> request \<Rightarrow> string \<Rightarrow> event list \<Rightarrow> reply \<times> event list" where
  "write_back client req generatedContent tr =
     (case notionPageId req of
        None \<Rightarrow>
          (\<lparr>code = 200,
            json_body = [(''success'', JBool True),
                         (''message'', JString ''Content processed!''),
                         (''output'', JString generatedContent)]\<rparr>, tr)
      | Some pageId \<Rightarrow>
          if pageId = [] then
            (\<lparr>code = 200,
              json_body = [(''success'', JBool True),
                           (''message'', JString ''Content processed!''),
                           (''output'', JString generatedContent)]\<rparr>, tr)
          else
            (case action req of
               None \<Rightarrow> (respond_unexpected (type_error ''replace''), tr)
             | Some act \<Rightarrow>
                 (case children_append client pageId (notionBlocks act generatedContent) of
                    Inl err \<Rightarrow>
                      (respond_unexpected err,
                       tr @ [AppendChildren pageId (notionBlocks act generatedContent)])
                  | Inr u \<Rightarrow>
                      (\<lparr>code = 200,
                        json_body = [(''success'', JBool True),
                                     (''message'', JString ''Content processed and added to Notion!''),
                                     (''output'', JString generatedContent)]\<rparr>,
                       tr @ [AppendChildren pageId (notionBlocks act generatedContent)]))))"

text \<open>Lines 75 to 179: the handler from the moment \<^verbatim>\<open>sourceContent\<close> is settled.\<close>

definition process_source ::
  "env \<Rightarrow> request \<Rightarrow> string option \<Rightarrow> event list \<Rightarrow> reply \<times> event list" where
  "process_source e req sourceContent tr =
     (if blank sourceContent
      then (error_reply 400 ''No content provided for AI processing.'', tr)
      else
        (case switch_action_part000 (action req) (content req) (take 15000 (the sourceContent)) of
           Inl err \<Rightarrow> (respond_unexpected err, tr)
         | Inr prompt \<Rightarrow>
             (case generateContent (gemini_api e) prompt of
                Inl err \<Rightarrow> (respond_unexpected err, tr @ [GenerateContent prompt])
              | Inr generatedContent \<Rightarrow>
                  write_back (notion_api e) req generatedContent (tr @ [GenerateContent prompt]))))"

definition proxyUrl :: "string \<Rightarrow> string" where
  "proxyUrl url = ''https://api.allorigins.win/raw?url='' @ encodeURIComponent url"

definition process_notion_content_part000 :: "env \<Rightarrow> request \<Rightarrow> reply \<times> event list" where
  "process_notion_content_part000 e req =
     (if \<not> truthy (NOTION_API_KEY e) \<or> \<not> truthy (GEMINI_API_KEY e)
      then (error_reply 500 ''Server API keys are not configured properly.'', [])
      else if truthy (content req) \<and>
              (startsWith (the (content req)) ''http://'' \<or> startsWith (the (content req)) ''https://'')
      then
        (case fetch e (proxyUrl (the (content req))) of
           Inl err \<Rightarrow> (respond_url_failed (the (content req)) err, [Fetch (proxyUrl (the (content req)))])
         | Inr response \<Rightarrow>
             if \<not> ok response
             then (respond_url_failed (the (content req))
                     (''HTTP error! status: '' @ show_nat (status response)),
                   [Fetch (proxyUrl (the (content req)))])
             else (case text_body response of
                     Inl err \<Rightarrow> (respond_url_failed (the (content req)) err,
                                  [Fetch (proxyUrl (the (content req)))])
                   | Inr body \<Rightarrow>
                       process_source e req (Some body) [Fetch (proxyUrl (the (content req)))]))
      else process_source e req (content req) [])"

section \<open>Notions used to state the properties\<close>

subsection \<open>Paginated responses\<close>

text \<open>
  \<open>serves n pid c ps\<close>: listing the children of \<open>pid\<close> from cursor \<open>c\<close>, the store
  answers with the pages \<open>ps\<close> in this order, every page but the last naming a next
  cursor, the last one ending the listing.
\<close>

fun serves :: "notion_client \<Rightarrow> string \<Rightarrow> cursor \<Rightarrow> list_response list \<Rightarrow> bool" where
  "serves n pid c [] = False"
| "serves n pid c (r # rs) =
     (children_list n pid c 100 = Inr r \<and>
      (if rs = [] then \<not> truthy (next_cursor r)
       else truthy (next_cursor r) \<and> serves n pid (next_cursor r) rs))"

text \<open>
  \<open>fails_after n pid c rs err\<close>: the store answers with the pages \<open>rs\<close>, each naming a
  next cursor, and rejects the call after them with \<open>err\<close>.
\<close>

fun fails_after ::
  "notion_client \<Rightarrow> string \<Rightarrow> cursor \<Rightarrow> list_response list \<Rightarrow> js_error \<Rightarrow> bool" where
  "fails_after n pid c [] err = (children_list n pid c 100 = Inl err)"
| "fails_after n pid c (r # rs) err =
     (children_list n pid c 100 = Inr r \<and> truthy (next_cursor r) \<and>
      fails_after n pid (next_cursor r) rs err)"

text \<open>The calls that retrieve the pages \<open>rs\<close>, and the cursor they leave.\<close>

fun list_calls :: "string \<Rightarrow> cursor \<Rightarrow> list_response list \<Rightarrow> event list" where
  "list_calls pid c [] = []"
| "list_calls pid c (r # rs) = ListChildren pid c 100 # list_calls pid (next_cursor r) rs"

fun end_cursor :: "cursor \<Rightarrow> list_response list \<Rightarrow> cursor" where
  "end_cursor c [] = c"
| "end_cursor c (r # rs) = end_cursor (next_cursor r) rs"

text \<open>The outcome of \<^verbatim>\<open>fetchNotionPageContent\<close> once the blocks are there.\<close>

fun wrapped :: "js_error + string \<Rightarrow> js_error + string" where
  "wrapped (Inl err) = Inl (fetch_failed err)"
| "wrapped (Inr t) = Inr t"

subsection \<open>What a block contributes\<close>

definition recognized :: "string \<Rightarrow> bool" where
  "recognized t = (t \<in> {''paragraph'', ''heading_1'', ''heading_2'', ''heading_3''})"

text \<open>The property a block carries under the name of its own type, and its spans.\<close>

definition body_of :: "block \<Rightarrow> block_body option" where
  "body_of b =
     (if block_type b = ''paragraph'' then paragraph_of b
      else if block_type b = ''heading_1'' then heading_1_of b
      else if block_type b = ''heading_2'' then heading_2_of b
      else if block_type b = ''heading_3'' then heading_3_of b
      else None)"

definition spans_of :: "block \<Rightarrow> rich_text_item list" where
  "spans_of b =
     (case body_of b of
        None \<Rightarrow> []
      | Some body \<Rightarrow> (case rich_text body of None \<Rightarrow> [] | Some spans \<Rightarrow> spans))"

text \<open>A block of a recognized type carries the property of that type, as the store's blocks do.\<close>

definition well_formed :: "block \<Rightarrow> bool" where
  "well_formed b = (recognized (block_type b) \<longrightarrow> body_of b \<noteq> None)"

text \<open>
  The policy as the specification words it: a block of a recognized type contributes the
  concatenation of its spans' plain text, ended by one newline; any other block nothing.
\<close>

definition spec_contribution :: "block \<Rightarrow> string" where
  "spec_contribution b =
     (if recognized (block_type b)
      then concat (map (\<lambda>t. to_str (plain_text t)) (spans_of b)) @ nl
      else [])"

definition spec_extract :: "block list \<Rightarrow> string" where
  "spec_extract bs = concat (map spec_contribution bs)"

text \<open>
  The policy of \<^verbatim>\<open>server.js\<close>, span by span: every span contributes its plain text and a
  newline; a paragraph leaves out the spans whose text is empty or missing.
\<close>

definition contribution :: "block \<Rightarrow> string" where
  "contribution b =
     (if block_type b = ''paragraph''
      then concat (map (\<lambda>t. the (plain_text t) @ nl)
             (filter (\<lambda>t. truthy (plain_text t)) (spans_of b)))
      else concat (map (\<lambda>t. to_str (plain_text t) @ nl) (spans_of b)))"

text \<open>
  The policy of \<^verbatim>\<open>part_000\<close>: a paragraph with at least one span contributes the
  concatenation of its spans' text and one newline; nothing else contributes.
\<close>

definition well_formed_part000 :: "block \<Rightarrow> bool" where
  "well_formed_part000 b =
     (block_type b = ''paragraph'' \<longrightarrow>
        (\<exists>p spans. paragraph_of b = Some p \<and> rich_text p = Some spans))"

definition contribution_part000 :: "block \<Rightarrow> string" where
  "contribution_part000 b =
     (if block_type b = ''paragraph'' \<and> spans_of b \<noteq> []
      then concat (map (\<lambda>t. join_str (plain_text t)) (spans_of b)) @ nl
      else [])"

subsection \<open>Actions and replies\<close>

text \<open>The \<^verbatim>\<open>case\<close> labels of the two switches.\<close>

definition supported_actions :: "string set" where
  "supported_actions = {''summarize'', ''brainstorm'', ''action_items'', ''expand'', ''rewrite''}"

definition supported_actions_part000 :: "string set" where
  "supported_actions_part000 =
     {''summarize'', ''notes'', ''quiz'', ''ask_question'', ''brainstorm'', ''rephrase''}"

text \<open>Some string field of the reply contains the text.\<close>

fun field_mentions :: "string \<Rightarrow> string \<times> json \<Rightarrow> bool" where
  "field_mentions t (k, JString s) = includes_str s t"
| "field_mentions t (k, JBool b) = False"

definition reply_mentions :: "reply \<Rightarrow> string \<Rightarrow> bool" where
  "reply_mentions r t = list_ex (field_mentions t) (json_body r)"

section \<open>Example inputs\<close>

definition span :: "string \<Rightarrow> rich_text_item" where
  "span s = \<lparr>plain_text = Some s\<rparr>"

definition para :: "string list \<Rightarrow> block" where
  "para ss = \<lparr>block_type = ''paragraph'',
     paragraph_of = Some \<lparr>rich_text = Some (map span ss)\<rparr>,
     heading_1_of = None, heading_2_of = None, heading_3_of = None\<rparr>"

definition head1 :: "string list \<Rightarrow> block" where
  "head1 ss = \<lparr>block_type = ''heading_1'', paragraph_of = None,
     heading_1_of = Some \<lparr>rich_text = Some (map span ss)\<rparr>,
     heading_2_of = None, heading_3_of = None\<rparr>"

definition divider :: block where
  "divider = \<lparr>block_type = ''divider'', paragraph_of = None,
     heading_1_of = None, heading_2_of = None, heading_3_of = None\<rparr>"

text \<open>Page \<^verbatim>\<open>P1\<close> served in two pages (cursor chain undefined, \<^verbatim>\<open>c1\<close>, null), and in one.\<close>

definition two_pages :: notion_client where
  "two_pages =
     \<lparr>children_list = (\<lambda>pid c n.
         if pid = ''P1'' \<and> c = None
         then Inr \<lparr>results = [para [''Hello '']], next_cursor = Some ''c1''\<rparr>
         else if pid = ''P1'' \<and> c = Some ''c1''
         then Inr \<lparr>results = [para [''world'']], next_cursor = None\<rparr>
         else Inl ''Could not find block''),
       children_append = (\<lambda>pid children. Inr ())\<rparr>"

definition one_page :: notion_client where
  "one_page =
     \<lparr>children_list = (\<lambda>pid c n.
         if pid = ''P1'' \<and> c = None
         then Inr \<lparr>results = [para [''Hello ''], para [''world'']], next_cursor = None\<rparr>
         else Inl ''Could not find block''),
       children_append = (\<lambda>pid children. Inr ())\<rparr>"

text \<open>A store whose second listing call fails, one that holds a divider only, one that rejects appends.\<close>

definition second_call_fails :: notion_client where
  "second_call_fails =
     \<lparr>children_list = (\<lambda>pid c n.
         if c = None then Inr \<lparr>results = [para [''Hello '']], next_cursor = Some ''c1''\<rparr>
         else Inl ''boom''),
       children_append = (\<lambda>pid children. Inr ())\<rparr>"

definition first_call_fails :: notion_client where
  "first_call_fails =
     \<lparr>children_list = (\<lambda>pid c n. Inl ''boom''),
       children_append = (\<lambda>pid children. Inr ())\<rparr>"

definition divider_only :: notion_client where
  "divider_only =
     \<lparr>children_list = (\<lambda>pid c n. Inr \<lparr>results = [divider], next_cursor = None\<rparr>),
       children_append = (\<lambda>pid children. Inr ())\<rparr>"

definition append_fails :: notion_client where
  "append_fails =
     \<lparr>children_list = (\<lambda>pid c n. Inr \<lparr>results = [para [''Hello '']], next_cursor = None\<rparr>),
       children_append = (\<lambda>pid children. Inl ''boom'')\<rparr>"

definition gen_ok :: gen_model where
  "gen_ok = \<lparr>generateContent = (\<lambda>prompt. Inr ''Summary.'')\<rparr>"

definition gen_fails :: gen_model where
  "gen_fails = \<lparr>generateContent = (\<lambda>prompt. Inl ''quota exceeded'')\<rparr>"

definition fetch_ok :: "string \<Rightarrow> js_error + http_response" where
  "fetch_ok url = Inr \<lparr>ok = True, status = 200, text_body = Inr ''Fetched text''\<rparr>"

definition fetch_fails :: "string \<Rightarrow> js_error + http_response" where
  "fetch_fails url = Inl ''fetch failed''"

definition env_of ::
  "notion_client \<Rightarrow> gen_model \<Rightarrow> (string \<Rightarrow> js_error + http_response) \<Rightarrow> env" where
  "env_of store gen f =
     \<lparr>NOTION_API_KEY = Some ''secret_abc'', GEMINI_API_KEY = Some ''AIza'',
      notion_api = store, gemini_api = gen, fetch = f\<rparr>"

section \<open>The listing loop\<close>

lemma list_loop_serves:
  "serves n pid c ps \<Longrightarrow>
   list_loop n pid c blocks tr =
     Some (Inr (blocks @ concat (map results ps)), tr @ list_calls pid c ps)"
proof (induction ps arbitrary: c blocks tr)
  case Nil
  then show ?case by simp
next
  case (Cons r rs)
  show ?case
  proof (cases "rs = []")
    case True
    with Cons.prems show ?thesis
      by (subst list_loop.simps) simp
  next
    case False
    with Cons.prems have a: "children_list n pid c 100 = Inr r" and b: "truthy (next_cursor r)"
      and c: "serves n pid (next_cursor r) rs" by simp_all
    show ?thesis
      by (subst list_loop.simps) (simp add: a b Cons.IH [OF c])
  qed
qed

lemma list_loop_fails:
  "fails_after n pid c rs err \<Longrightarrow>
   list_loop n pid c blocks tr =
     Some (Inl err, tr @ list_calls pid c rs @ [ListChildren pid (end_cursor c rs) 100])"
proof (induction rs arbitrary: c blocks tr)
  case Nil
  then show ?case by (subst list_loop.simps) simp
next
  case (Cons r rs)
  then have a: "children_list n pid c 100 = Inr r" and b: "truthy (next_cursor r)"
    and c: "fails_after n pid (next_cursor r) rs err" by simp_all
  show ?case
    by (subst list_loop.simps) (simp add: a b Cons.IH [OF c])
qed

text \<open>Whatever the loop returns, it made listing calls only, the first at the given cursor.\<close>

lemma list_loop_trace:
  assumes "list_loop n pid c blocks tr = Some y"
  shows "\<exists>rest. snd y = tr @ ListChildren pid c 100 # rest \<and> (\<forall>ev\<in>set rest. is_list ev)"
proof (rule list_loop.raw_induct
    [where P = "\<lambda>n pid c blocks tr y.
       \<exists>rest. snd y = tr @ ListChildren pid c 100 # rest \<and> (\<forall>ev\<in>set rest. is_list ev)",
     OF _ assms])
  fix f :: "notion_client \<Rightarrow> string \<Rightarrow> cursor \<Rightarrow> block list \<Rightarrow> event list
      \<Rightarrow> ((js_error + block list) \<times> event list) option"
    and n :: notion_client and pid c and blocks :: "block list" and tr
    and y :: "(js_error + block list) \<times> event list"
  assume IH: "\<And>n pid c blocks tr y. f n pid c blocks tr = Some y \<Longrightarrow>
    \<exists>rest. snd y = tr @ ListChildren pid c 100 # rest \<and> (\<forall>ev\<in>set rest. is_list ev)"
  assume body: "(case children_list n pid c 100 of
       Inl e \<Rightarrow> Some (Inl e, tr @ [ListChildren pid c 100])
     | Inr response \<Rightarrow>
         if truthy (next_cursor response)
         then f n pid (next_cursor response) (blocks @ results response)
                (tr @ [ListChildren pid c 100])
         else Some (Inr (blocks @ results response), tr @ [ListChildren pid c 100])) = Some y"
  show "\<exists>rest. snd y = tr @ ListChildren pid c 100 # rest \<and> (\<forall>ev\<in>set rest. is_list ev)"
  proof (cases "children_list n pid c 100")
    case (Inl e)
    with body show ?thesis by auto
  next
    case (Inr r)
    show ?thesis
    proof (cases "truthy (next_cursor r)")
      case True
      with Inr body
      have "f n pid (next_cursor r) (blocks @ results r) (tr @ [ListChildren pid c 100]) = Some y"
        by simp
      from IH [OF this] obtain rest where
        "snd y = (tr @ [ListChildren pid c 100]) @ ListChildren pid (next_cursor r) 100 # rest"
        "\<forall>ev\<in>set rest. is_list ev" by blast
      then show ?thesis by simp
    next
      case False
      with Inr body show ?thesis by auto
    qed
  qed
qed

lemma fetchNotionPageContent_trace:
  assumes "fetchNotionPageContent (Some n) pid = Some (res, tr)"
  shows "\<exists>rest. tr = ListChildren pid None 100 # rest \<and> (\<forall>ev\<in>set rest. is_list ev)"
proof -
  from assms obtain y where y: "list_loop n pid None [] [] = Some y" and tr: "snd y = tr"
    by (auto simp: fetchNotionPageContent_def split: option.splits sum.splits prod.splits)
  from list_loop_trace [OF y] tr show ?thesis by simp
qed

section \<open>The extraction policies\<close>

lemma paragraph_spans_eq:
  "paragraph_spans spans c =
     c @ concat (map (\<lambda>t. the (plain_text t) @ nl) (filter (\<lambda>t. truthy (plain_text t)) spans))"
  unfolding paragraph_spans_def
  by (induction spans arbitrary: c) simp_all

lemma heading_spans_eq:
  "heading_spans spans c = c @ concat (map (\<lambda>t. to_str (plain_text t) @ nl) spans)"
  unfolding heading_spans_def
  by (induction spans arbitrary: c) simp_all

lemma heading_branch_eq:
  "heading_branch (Some h) c =
     Inr (c @ concat (map (\<lambda>t. to_str (plain_text t) @ nl)
       (case rich_text h of None \<Rightarrow> [] | Some spans \<Rightarrow> spans)))"
  by (cases "rich_text h") (simp_all add: heading_branch_def heading_spans_eq)

lemma block_step_contribution:
  assumes "well_formed b"
  shows "block_step b c = Inr (c @ contribution b)"
proof -
  consider (p) "block_type b = ''paragraph''" | (h1) "block_type b = ''heading_1''"
    | (h2) "block_type b = ''heading_2''" | (h3) "block_type b = ''heading_3''"
    | (other) "\<not> recognized (block_type b)"
    unfolding recognized_def by blast
  then show ?thesis
  proof cases
    case p
    with assms have "paragraph_of b \<noteq> None"
      by (simp add: well_formed_def recognized_def body_of_def)
    then obtain body where body: "paragraph_of b = Some body" by blast
    show ?thesis
      by (cases "rich_text body")
        (simp_all add: block_step_def contribution_def spans_of_def body_of_def p body
          paragraph_spans_eq)
  next
    case h1
    with assms have "heading_1_of b \<noteq> None"
      by (simp add: well_formed_def recognized_def body_of_def)
    then obtain body where body: "heading_1_of b = Some body" by blast
    show ?thesis
      by (simp add: block_step_def contribution_def spans_of_def body_of_def h1 body
          heading_branch_eq)
  next
    case h2
    with assms have "heading_2_of b \<noteq> None"
      by (simp add: well_formed_def recognized_def body_of_def)
    then obtain body where body: "heading_2_of b = Some body" by blast
    show ?thesis
      by (simp add: block_step_def contribution_def spans_of_def body_of_def h2 body
          heading_branch_eq)
  next
    case h3
    with assms have "heading_3_of b \<noteq> None"
      by (simp add: well_formed_def recognized_def body_of_def)
    then obtain body where body: "heading_3_of b = Some body" by blast
    show ?thesis
      by (simp add: block_step_def contribution_def spans_of_def body_of_def h3 body
          heading_branch_eq)
  next
    case other
    then have t: "block_type b \<noteq> ''paragraph''" "block_type b \<noteq> ''heading_1''"
      "block_type b \<noteq> ''heading_2''" "block_type b \<noteq> ''heading_3''"
      unfolding recognized_def by blast+
    show ?thesis
      by (simp add: block_step_def contribution_def spans_of_def body_of_def t)
  qed
qed

lemma block_step_unrecognized:
  "\<not> recognized (block_type b) \<Longrightarrow> block_step b c = Inr c"
  unfolding recognized_def block_step_def by simp

lemma forEach_blocks_contribution:
  "\<forall>b\<in>set bs. well_formed b \<Longrightarrow> forEach_blocks bs c = Inr (c @ concat (map contribution bs))"
  by (induction bs arbitrary: c) (simp_all add: block_step_contribution)

lemma forEach_blocks_unrecognized:
  "\<forall>b\<in>set bs. \<not> recognized (block_type b) \<Longrightarrow> forEach_blocks bs c = Inr c"
  by (induction bs arbitrary: c) (simp_all add: block_step_unrecognized)

lemma extract_step_contribution:
  assumes "well_formed_part000 b"
  shows "extract_step b c = Inr (c @ contribution_part000 b)"
proof (cases "block_type b = ''paragraph''")
  case True
  with assms obtain p spans where "paragraph_of b = Some p" "rich_text p = Some spans"
    unfolding well_formed_part000_def by blast
  with True show ?thesis
    by (simp add: extract_step_def contribution_part000_def spans_of_def body_of_def)
next
  case False
  then show ?thesis
    by (simp add: extract_step_def contribution_part000_def)
qed

lemma extract_loop_contribution:
  "\<forall>b\<in>set bs. well_formed_part000 b \<Longrightarrow>
   extract_loop bs c = Inr (c @ concat (map contribution_part000 bs))"
  by (induction bs arbitrary: c) (simp_all add: extract_step_contribution)

lemma extract_loop_not_paragraph:
  "\<forall>b\<in>set bs. block_type b \<noteq> ''paragraph'' \<Longrightarrow> extract_loop bs c = Inr c"
  by (induction bs arbitrary: c) (simp_all add: extract_step_def)

text \<open>The two extractions on the example blocks.\<close>

lemma block_step_para:
  "block_step (para ss) c = Inr (c @ concat (map (\<lambda>s. s @ nl) (filter (\<lambda>s. s \<noteq> []) ss)))"
  by (simp add: block_step_def para_def paragraph_spans_eq span_def filter_map comp_def)

lemma block_step_head1:
  "block_step (head1 ss) c = Inr (c @ concat (map (\<lambda>s. s @ nl) ss))"
  by (simp add: block_step_def head1_def heading_branch_eq span_def comp_def)

lemma block_step_divider:
  "block_step divider c = Inr c"
  by (simp add: block_step_def divider_def)

lemma extract_step_para:
  "extract_step (para ss) c = Inr (if ss = [] then c else c @ concat ss @ nl)"
  by (simp add: extract_step_def para_def span_def comp_def)

lemma extract_step_head1:
  "extract_step (head1 ss) c = Inr c"
  by (simp add: extract_step_def head1_def)

lemma extract_step_divider:
  "extract_step divider c = Inr c"
  by (simp add: extract_step_def divider_def)

section \<open>Extraction: the claims\<close>

text \<open>
  C1. If the store serves the children of a page as the pages \<open>ps\<close>, the last one ending
  the listing, then \<^verbatim>\<open>fetchNotionPageContent\<close> (in both files) returns, after one call per
  page, the extraction of all the blocks in retrieval order: for well-formed blocks the
  concatenation of the blocks' contributions. The number of pages is arbitrary, and two
  listings that hold the same blocks, split into pages differently, give the same text.
\<close>

theorem pagination_independent:
  assumes "serves n pid None ps" and "serves n' pid' None ps'"
    and "concat (map results ps) = concat (map results ps')"
  shows
    "fetchNotionPageContent (Some n) pid =
       Some (wrapped (forEach_blocks (concat (map results ps)) []), list_calls pid None ps)
     \<and> map_option fst (fetchNotionPageContent (Some n') pid') =
         map_option fst (fetchNotionPageContent (Some n) pid)
     \<and> ((\<forall>b\<in>set (concat (map results ps)). well_formed b) \<longrightarrow>
          map_option fst (fetchNotionPageContent (Some n) pid) =
            Some (Inr (concat (map contribution (concat (map results ps))))))
     \<and> fetchNotionPageContent_part000 n pid =
         Some (wrapped (extractTextFromBlocks (concat (map results ps))), list_calls pid None ps)
     \<and> map_option fst (fetchNotionPageContent_part000 n' pid') =
         map_option fst (fetchNotionPageContent_part000 n pid)
     \<and> ((\<forall>b\<in>set (concat (map results ps)). well_formed_part000 b) \<longrightarrow>
          map_option fst (fetchNotionPageContent_part000 n pid) =
            Some (Inr (concat (map contribution_part000 (concat (map results ps))))))"
proof -
  have loop: "list_loop n pid None [] [] = Some (Inr (concat (map results ps)), list_calls pid None ps)"
    using list_loop_serves [OF assms(1), of "[]" "[]"] by simp
  have loop': "list_loop n' pid' None [] [] = Some (Inr (concat (map results ps)), list_calls pid' None ps')"
    using list_loop_serves [OF assms(2), of "[]" "[]"] assms(3) by simp
  have a: "fetchNotionPageContent (Some n) pid =
      Some (wrapped (forEach_blocks (concat (map results ps)) []), list_calls pid None ps)"
    by (cases "forEach_blocks (concat (map results ps)) []")
      (simp_all add: fetchNotionPageContent_def loop)
  have a': "fetchNotionPageContent (Some n') pid' =
      Some (wrapped (forEach_blocks (concat (map results ps)) []), list_calls pid' None ps')"
    by (cases "forEach_blocks (concat (map results ps)) []")
      (simp_all add: fetchNotionPageContent_def loop')
  have b: "fetchNotionPageContent_part000 n pid =
      Some (wrapped (extractTextFromBlocks (concat (map results ps))), list_calls pid None ps)"
    by (cases "extractTextFromBlocks (concat (map results ps))")
      (simp_all add: fetchNotionPageContent_part000_def loop)
  have b': "fetchNotionPageContent_part000 n' pid' =
      Some (wrapped (extractTextFromBlocks (concat (map results ps))), list_calls pid' None ps')"
    by (cases "extractTextFromBlocks (concat (map results ps))")
      (simp_all add: fetchNotionPageContent_part000_def loop')
  have c: "(\<forall>b\<in>set (concat (map results ps)). well_formed b) \<longrightarrow>
      wrapped (forEach_blocks (concat (map results ps)) []) =
        Inr (concat (map contribution (concat (map results ps))))"
    using forEach_blocks_contribution [of "concat (map results ps)" "[]"] by simp
  have d: "(\<forall>b\<in>set (concat (map results ps)). well_formed_part000 b) \<longrightarrow>
      wrapped (extractTextFromBlocks (concat (map results ps))) =
        Inr (concat (map contribution_part000 (concat (map results ps))))"
    using extract_loop_contribution [of "concat (map results ps)" "[]"]
    by (simp add: extractTextFromBlocks_def)
  show ?thesis
    using c d by (simp add: a a' b b')
qed

theorem pagination_independent_witness:
  "serves two_pages ''P1'' None
     [\<lparr>results = [para [''Hello '']], next_cursor = Some ''c1''\<rparr>,
      \<lparr>results = [para [''world'']], next_cursor = None\<rparr>]
   \<and> serves one_page ''P1'' None
     [\<lparr>results = [para [''Hello ''], para [''world'']], next_cursor = None\<rparr>]
   \<and> fetchNotionPageContent (Some two_pages) ''P1'' =
       Some (Inr (''Hello '' @ nl @ ''world'' @ nl),
             [ListChildren ''P1'' None 100, ListChildren ''P1'' (Some ''c1'') 100])
   \<and> map_option fst (fetchNotionPageContent (Some one_page) ''P1'') =
       Some (Inr (''Hello '' @ nl @ ''world'' @ nl))
   \<and> map_option fst (fetchNotionPageContent_part000 two_pages ''P1'') =
       Some (Inr (''Hello '' @ nl @ ''world'' @ nl))
   \<and> map_option fst (fetchNotionPageContent_part000 one_page ''P1'') =
       Some (Inr (''Hello '' @ nl @ ''world'' @ nl))"
proof -
  have h1: "serves two_pages ''P1'' None
     [\<lparr>results = [para [''Hello '']], next_cursor = Some ''c1''\<rparr>,
      \<lparr>results = [para [''world'']], next_cursor = None\<rparr>]"
    by (simp add: two_pages_def)
  have h2: "serves one_page ''P1'' None
     [\<lparr>results = [para [''Hello ''], para [''world'']], next_cursor = None\<rparr>]"
    by (simp add: one_page_def)
  have h3: "concat (map results [\<lparr>results = [para [''Hello '']], next_cursor = Some ''c1''\<rparr>,
      \<lparr>results = [para [''world'']], next_cursor = None\<rparr>]) =
     concat (map results [\<lparr>results = [para [''Hello ''], para [''world'']], next_cursor = None\<rparr>])"
    by simp
  show ?thesis
    using h1 h2 pagination_independent [OF h1 h2 h3]
    by (simp add: block_step_para extractTextFromBlocks_def extract_step_para)
qed

text \<open>
  C2, as the claim words it, fails: on a paragraph of two spans followed by a heading,
  \<^verbatim>\<open>server.js\<close> ends every span with a newline, and \<^verbatim>\<open>part_000\<close> leaves the heading out.
\<close>

theorem extractor_policy_counterexample:
  "forEach_blocks [para [''Hello '', ''world''], head1 [''Title'']] [] =
     Inr (''Hello '' @ nl @ ''world'' @ nl @ ''Title'' @ nl)
   \<and> extractTextFromBlocks [para [''Hello '', ''world''], head1 [''Title'']] =
     Inr (''Hello world'' @ nl)
   \<and> spec_extract [para [''Hello '', ''world''], head1 [''Title'']] =
     ''Hello world'' @ nl @ ''Title'' @ nl
   \<and> forEach_blocks [para [''Hello '', ''world''], head1 [''Title'']] [] \<noteq>
     Inr (spec_extract [para [''Hello '', ''world''], head1 [''Title'']])
   \<and> extractTextFromBlocks [para [''Hello '', ''world''], head1 [''Title'']] \<noteq>
     Inr (spec_extract [para [''Hello '', ''world''], head1 [''Title'']])"
proof -
  have a: "forEach_blocks [para [''Hello '', ''world''], head1 [''Title'']] [] =
      Inr (''Hello '' @ nl @ ''world'' @ nl @ ''Title'' @ nl)"
    by (simp add: block_step_para block_step_head1)
  have b: "extractTextFromBlocks [para [''Hello '', ''world''], head1 [''Title'']] =
      Inr (''Hello world'' @ nl)"
    by (simp add: extractTextFromBlocks_def extract_step_para extract_step_head1)
  have c: "spec_extract [para [''Hello '', ''world''], head1 [''Title'']] =
      ''Hello world'' @ nl @ ''Title'' @ nl"
    by (simp add: spec_extract_def spec_contribution_def recognized_def spans_of_def
        body_of_def para_def head1_def span_def)
  show ?thesis
    unfolding a b c by (simp add: nl_def)
qed

text \<open>
  C2, amended. In \<^verbatim>\<open>server.js\<close>, when every block of a recognized type (paragraph,
  heading 1 to 3) carries the property of its type, such a block contributes each of its
  spans' plain text followed by a newline, a paragraph leaving out the spans without text;
  in \<^verbatim>\<open>part_000\<close>, when every paragraph carries its property with a \<^verbatim>\<open>rich_text\<close> list,
  only a paragraph with at least one span contributes, the concatenation of its spans' text
  followed by one newline. In both, a block of another type contributes nothing and raises
  no error, block order is kept, and the result is the empty string when no block is of a
  contributing type.
\<close>

theorem extractor_policy:
  "((\<forall>b\<in>set bs. well_formed b) \<longrightarrow>
      forEach_blocks bs [] = Inr (concat (map contribution bs)))
   \<and> ((\<forall>b\<in>set bs. \<not> recognized (block_type b)) \<longrightarrow> forEach_blocks bs [] = Inr [])
   \<and> ((\<forall>b\<in>set bs. well_formed_part000 b) \<longrightarrow>
      extractTextFromBlocks bs = Inr (concat (map contribution_part000 bs)))
   \<and> ((\<forall>b\<in>set bs. block_type b \<noteq> ''paragraph'') \<longrightarrow> extractTextFromBlocks bs = Inr [])"
  using forEach_blocks_contribution [of bs "[]"] forEach_blocks_unrecognized [of bs "[]"]
    extract_loop_contribution [of bs "[]"] extract_loop_not_paragraph [of bs "[]"]
  by (simp add: extractTextFromBlocks_def)

theorem extractor_policy_witness:
  "well_formed (para [''Hello '', ''world'']) \<and> well_formed divider
   \<and> well_formed_part000 (para [''Hello '', ''world'']) \<and> well_formed_part000 divider
   \<and> forEach_blocks [para [''Hello '', ''world''], divider] [] = Inr (''Hello '' @ nl @ ''world'' @ nl)
   \<and> extractTextFromBlocks [para [''Hello '', ''world''], divider] = Inr (''Hello world'' @ nl)
   \<and> \<not> recognized (block_type divider)
   \<and> block_type divider \<noteq> ''paragraph''
   \<and> forEach_blocks [divider, divider] [] = Inr []
   \<and> extractTextFromBlocks [divider, divider] = Inr []"
proof -
  have w1: "well_formed (para [''Hello '', ''world''])" "well_formed divider"
    by (simp_all add: well_formed_def recognized_def body_of_def para_def divider_def)
  have w2: "well_formed_part000 (para [''Hello '', ''world''])" "well_formed_part000 divider"
    by (simp_all add: well_formed_part000_def para_def divider_def)
  have w3: "\<not> recognized (block_type divider)"
    by (simp add: recognized_def divider_def)
  have w4: "block_type divider \<noteq> ''paragraph''"
    by (simp add: divider_def)
  have c1: "concat (map contribution [para [''Hello '', ''world''], divider]) =
      ''Hello '' @ nl @ ''world'' @ nl"
    by (simp add: contribution_def spans_of_def body_of_def para_def divider_def span_def)
  have c2: "concat (map contribution_part000 [para [''Hello '', ''world''], divider]) =
      ''Hello world'' @ nl"
    by (simp add: contribution_part000_def spans_of_def body_of_def para_def divider_def span_def)
  from extractor_policy [of "[para [''Hello '', ''world''], divider]"] w1 w2 c1 c2
  have a: "forEach_blocks [para [''Hello '', ''world''], divider] [] =
      Inr (''Hello '' @ nl @ ''world'' @ nl)"
    "extractTextFromBlocks [para [''Hello '', ''world''], divider] = Inr (''Hello world'' @ nl)"
    by simp_all
  from extractor_policy [of "[divider, divider]"] w3 w4
  have b: "forEach_blocks [divider, divider] [] = Inr []"
    "extractTextFromBlocks [divider, divider] = Inr []"
    by simp_all
  from w1 w2 w3 w4 a b show ?thesis by blast
qed

text \<open>
  C9, as the claim words it, fails: the wrapped error is built from the cause's message
  alone, and does not carry the page identifier when that message does not name it.
\<close>

theorem fetch_error_counterexample:
  "fetchNotionPageContent (Some first_call_fails) ''P1'' =
     Some (Inl ''Failed to fetch content from Notion page: boom'', [ListChildren ''P1'' None 100])
   \<and> fetchNotionPageContent_part000 first_call_fails ''P1'' =
     Some (Inl ''Failed to fetch content from Notion page: boom'', [ListChildren ''P1'' None 100])
   \<and> \<not> includes_str ''Failed to fetch content from Notion page: boom'' ''P1''"
proof -
  have "list_loop first_call_fails ''P1'' None [] [] = Some (Inl ''boom'', [ListChildren ''P1'' None 100])"
    by (subst list_loop.simps) (simp add: first_call_fails_def)
  then show ?thesis
    by (simp add: fetchNotionPageContent_def fetchNotionPageContent_part000_def fetch_failed_def)
qed

text \<open>
  C9, amended. If a listing call is rejected, after any number of pages,
  \<^verbatim>\<open>fetchNotionPageContent\<close> (in both files) fails with one error, the cause's message after
  the prefix \<^verbatim>\<open>Failed to fetch content from Notion page: \<close> (the extractor adds no page
  identifier: the error names the page only where the cause's message does), and returns
  none of the blocks already retrieved.
\<close>

theorem fetch_error_wrapped:
  assumes "fails_after n pid None rs err"
  shows
    "fetchNotionPageContent (Some n) pid =
       Some (Inl (''Failed to fetch content from Notion page: '' @ err),
             list_calls pid None rs @ [ListChildren pid (end_cursor None rs) 100])
     \<and> fetchNotionPageContent_part000 n pid =
       Some (Inl (''Failed to fetch content from Notion page: '' @ err),
             list_calls pid None rs @ [ListChildren pid (end_cursor None rs) 100])"
  using list_loop_fails [OF assms, of "[]" "[]"]
  by (simp add: fetchNotionPageContent_def fetchNotionPageContent_part000_def fetch_failed_def)

theorem fetch_error_wrapped_witness:
  "fails_after second_call_fails ''P1'' None
     [\<lparr>results = [para [''Hello '']], next_cursor = Some ''c1''\<rparr>] ''boom''
   \<and> fetchNotionPageContent (Some second_call_fails) ''P1'' =
       Some (Inl ''Failed to fetch content from Notion page: boom'',
             [ListChildren ''P1'' None 100, ListChildren ''P1'' (Some ''c1'') 100])
   \<and> fetchNotionPageContent_part000 second_call_fails ''P1'' =
       Some (Inl ''Failed to fetch content from Notion page: boom'',
             [ListChildren ''P1'' None 100, ListChildren ''P1'' (Some ''c1'') 100])"
proof -
  have h: "fails_after second_call_fails ''P1'' None
     [\<lparr>results = [para [''Hello '']], next_cursor = Some ''c1''\<rparr>] ''boom''"
    by (simp add: second_call_fails_def)
  show ?thesis
    using h fetch_error_wrapped [OF h] by simp
qed

section \<open>The handler of \<^verbatim>\<open>server.js\<close>, case by case\<close>

lemma list_event_kinds:
  "is_list ev \<Longrightarrow> \<not> is_generate ev \<and> \<not> is_append ev"
  by (cases ev) simp_all

lemma switch_action_unsupported:
  "act \<notin> Some ` supported_actions \<Longrightarrow> switch_action act text = None"
  by (simp add: switch_action_def supported_actions_def image_iff)

lemma supported_actions_cases:
  assumes "act \<in> Some ` supported_actions"
  shows "act = Some ''summarize'' \<or> act = Some ''brainstorm''
    \<or> act = Some ''action_items'' \<or> act = Some ''expand'' \<or> act = Some ''rewrite''"
  using assms by (auto simp: supported_actions_def)

lemma switch_action_supported:
  assumes "act \<in> Some ` supported_actions"
  shows "\<exists>template. template \<noteq> [] \<and> switch_action act text = Some (template @ text)"
proof -
  have *: "switch_action act text = Some (t @ text) \<Longrightarrow> t \<noteq> [] \<Longrightarrow> ?thesis" for t
    by (intro exI conjI)
  from supported_actions_cases [OF assms] show ?thesis
  proof (elim disjE)
    assume a: "act = Some ''summarize''"
    have "switch_action act text = Some ((''Summarize the following content concisely:'' @ nl @ nl) @ text)"
      by (simp add: a switch_action_def)
    then show ?thesis by (rule *) simp
  next
    assume a: "act = Some ''brainstorm''"
    have "switch_action act text = Some ((''Brainstorm ideas related to the following content:'' @ nl @ nl) @ text)"
      by (simp add: a switch_action_def)
    then show ?thesis by (rule *) simp
  next
    assume a: "act = Some ''action_items''"
    have "switch_action act text = Some ((''Extract key action items from the following content:'' @ nl @ nl) @ text)"
      by (simp add: a switch_action_def)
    then show ?thesis by (rule *) simp
  next
    assume a: "act = Some ''expand''"
    have "switch_action act text = Some ((''Expand on the following content in detail:'' @ nl @ nl) @ text)"
      by (simp add: a switch_action_def)
    then show ?thesis by (rule *) simp
  next
    assume a: "act = Some ''rewrite''"
    have "switch_action act text = Some ((''Rewrite the following content to be clearer and more engaging:'' @ nl @ nl) @ text)"
      by (simp add: a switch_action_def)
    then show ?thesis by (rule *) simp
  qed
qed

text \<open>The four ways \<open>process_content\<close> ends.\<close>

lemma process_content_cases:
  assumes "process_content (Some c) m pid act text tr0 = (r, tr)"
  shows
    "(switch_action act text = None \<and> r = error_reply 400 ''Invalid AI action specified.'' \<and> tr = tr0)
     \<or> (\<exists>p err. switch_action act text = Some p \<and> generateContent m p = Inl err \<and>
           r = respond_failed err \<and> tr = tr0 @ [GenerateContent p])
     \<or> (\<exists>p g err. switch_action act text = Some p \<and> generateContent m p = Inr g \<and>
           children_append c pid [NewParagraph g False] = Inl err \<and>
           r = respond_failed (''Failed to append content to Notion: '' @ err) \<and>
           tr = tr0 @ [GenerateContent p, AppendChildren pid [NewParagraph g False]])
     \<or> (\<exists>p g. switch_action act text = Some p \<and> generateContent m p = Inr g \<and>
           children_append c pid [NewParagraph g False] = Inr () \<and>
           r = \<lparr>code = 200,
                 json_body = [(''message'', JString ''Content processed and appended to Notion.''),
                              (''geminiResponse'', JString g)]\<rparr> \<and>
           tr = tr0 @ [GenerateContent p, AppendChildren pid [NewParagraph g False]])"
proof (cases "switch_action act text")
  case None
  with assms show ?thesis by (simp add: process_content_def)
next
  case (Some p)
  show ?thesis
  proof (cases "generateContent m p")
    case (Inl err)
    with Some assms show ?thesis
      by (simp add: process_content_def generate_and_append_def)
  next
    case (Inr g)
    show ?thesis
    proof (cases "children_append c pid [NewParagraph g False]")
      case (Inl err)
      with Some Inr assms show ?thesis
        by (simp add: process_content_def generate_and_append_def appendContentToNotion_def)
    next
      case Inr2: (Inr u)
      with Some Inr assms show ?thesis
        by (simp add: process_content_def generate_and_append_def appendContentToNotion_def)
    qed
  qed
qed

text \<open>The ways the handler ends, when it ends.\<close>

lemma process_notion_content_ready:
  assumes "notionPageId req = Some pid" "pid \<noteq> []"
    and "truthy (NOTION_API_KEY e)" "truthy (GEMINI_API_KEY e)"
  shows "process_notion_content e req =
     (if blank (content req) then
        (case fetchNotionPageContent (Some (notion_api e)) pid of
           None \<Rightarrow> None
         | Some (Inl err, tr) \<Rightarrow> Some (respond_failed err, tr)
         | Some (Inr fetched, tr) \<Rightarrow>
             if blank (Some fetched)
             then Some (error_reply 400
               ''No readable content found on the specified Notion page to process.'', tr)
             else Some (process_content (Some (notion_api e)) (gemini_api e) pid (action req) fetched tr))
      else Some (process_content (Some (notion_api e)) (gemini_api e) pid (action req)
                   (the (content req)) []))"
proof -
  have n: "notion e = Some (notion_api e)" and m: "model e = Some (gemini_api e)"
    using assms by (simp_all add: notion_def model_def)
  show ?thesis
    unfolding process_notion_content_def n m using assms by simp
qed

lemma process_notion_content_not_ready:
  assumes "\<not> (\<exists>pid. notionPageId req = Some pid \<and> pid \<noteq> []) \<or>
     \<not> truthy (NOTION_API_KEY e) \<or> \<not> truthy (GEMINI_API_KEY e)"
  shows "\<exists>c msg. process_notion_content e req = Some (error_reply c msg, []) \<and> (c = 400 \<or> c = 500)"
  using assms by (auto simp: process_notion_content_def notion_def model_def split: option.splits)

lemma process_notion_content_cases:
  assumes "process_notion_content e req = Some (r, tr)"
  shows
    "(\<exists>c msg. r = error_reply c msg \<and> (c = 400 \<or> c = 500) \<and> tr = [])
     \<or> (\<exists>pid. notionPageId req = Some pid \<and> pid \<noteq> [] \<and>
          truthy (NOTION_API_KEY e) \<and> truthy (GEMINI_API_KEY e) \<and>
          ((blank (content req) \<and>
              (\<exists>err. fetchNotionPageContent (Some (notion_api e)) pid = Some (Inl err, tr) \<and>
                 r = respond_failed err))
           \<or> (blank (content req) \<and>
                (\<exists>fetched. fetchNotionPageContent (Some (notion_api e)) pid = Some (Inr fetched, tr) \<and>
                   blank (Some fetched) \<and>
                   r = error_reply 400
                     ''No readable content found on the specified Notion page to process.''))
           \<or> (blank (content req) \<and>
                (\<exists>fetched tr0. fetchNotionPageContent (Some (notion_api e)) pid = Some (Inr fetched, tr0) \<and>
                   \<not> blank (Some fetched) \<and>
                   process_content (Some (notion_api e)) (gemini_api e) pid (action req) fetched tr0 = (r, tr)))
           \<or> (\<not> blank (content req) \<and>
                process_content (Some (notion_api e)) (gemini_api e) pid (action req)
                  (the (content req)) [] = (r, tr))))"
proof (cases "(\<exists>pid. notionPageId req = Some pid \<and> pid \<noteq> []) \<and>
     truthy (NOTION_API_KEY e) \<and> truthy (GEMINI_API_KEY e)")
  case False
  then have "\<not> (\<exists>pid. notionPageId req = Some pid \<and> pid \<noteq> []) \<or>
     \<not> truthy (NOTION_API_KEY e) \<or> \<not> truthy (GEMINI_API_KEY e)" by blast
  from process_notion_content_not_ready [OF this] assms show ?thesis by auto
next
  case True
  then obtain pid where pid: "notionPageId req = Some pid" "pid \<noteq> []"
    and keys: "truthy (NOTION_API_KEY e)" "truthy (GEMINI_API_KEY e)" by blast
  note ready = process_notion_content_ready [OF pid keys]
  show ?thesis
  proof (cases "blank (content req)")
    case False
    with assms ready pid keys show ?thesis by simp
  next
    case True
    show ?thesis
    proof (cases "fetchNotionPageContent (Some (notion_api e)) pid")
      case None
      with assms ready True show ?thesis by simp
    next
      case (Some y)
      obtain res tr0 where y: "y = (res, tr0)" by (cases y)
      show ?thesis
      proof (cases res)
        case (Inl err)
        with assms ready True Some y pid keys show ?thesis by simp
      next
        case (Inr fetched)
        with assms ready True Some y pid keys show ?thesis
          by (cases "blank (Some fetched)") simp_all
      qed
    qed
  qed
qed

text \<open>The calls of a request whose content is given, and of one whose content is fetched.\<close>

lemma content_given_trace:
  assumes "\<not> blank (content req)" and "process_notion_content e req = Some (r, tr)"
  shows "(\<forall>ev\<in>set tr. \<not> is_list ev) \<and>
     (\<forall>p. GenerateContent p \<in> set tr \<longrightarrow> switch_action (action req) (the (content req)) = Some p)"
proof -
  from process_notion_content_cases [OF assms(2)] assms(1)
  consider (early) "tr = []"
    | (direct) p where "process_content (Some (notion_api e)) (gemini_api e) p (action req)
                  (the (content req)) [] = (r, tr)"
    by auto
  then show ?thesis
  proof cases
    case early
    then show ?thesis by simp
  next
    case direct
    from process_content_cases [OF direct] show ?thesis by auto
  qed
qed

lemma content_given_returns:
  assumes "\<not> blank (content req)"
  shows "process_notion_content e req \<noteq> None"
proof (cases "(\<exists>pid. notionPageId req = Some pid \<and> pid \<noteq> []) \<and>
     truthy (NOTION_API_KEY e) \<and> truthy (GEMINI_API_KEY e)")
  case False
  then have "\<not> (\<exists>pid. notionPageId req = Some pid \<and> pid \<noteq> []) \<or>
     \<not> truthy (NOTION_API_KEY e) \<or> \<not> truthy (GEMINI_API_KEY e)" by blast
  from process_notion_content_not_ready [OF this] show ?thesis by auto
next
  case True
  then obtain pid where "notionPageId req = Some pid" "pid \<noteq> []"
    "truthy (NOTION_API_KEY e)" "truthy (GEMINI_API_KEY e)" by blast
  from process_notion_content_ready [OF this] assms show ?thesis by simp
qed

lemma content_fetched_trace:
  assumes "notionPageId req = Some pid" "pid \<noteq> []"
    and "truthy (NOTION_API_KEY e)" "truthy (GEMINI_API_KEY e)"
    and "blank (content req)" and "process_notion_content e req = Some (r, tr)"
  shows "\<exists>rest. tr = ListChildren pid None 100 # rest \<and>
     (\<forall>ev\<in>set rest. is_list ev \<or> is_generate ev \<or> is_append ev)"
proof (cases "fetchNotionPageContent (Some (notion_api e)) pid")
  case None
  with process_notion_content_ready [OF assms(1-4)] assms(5,6) show ?thesis by simp
next
  case (Some y)
  obtain res tr0 where y: "y = (res, tr0)" by (cases y)
  from fetchNotionPageContent_trace [OF Some [unfolded y]] obtain rest0
    where tr0: "tr0 = ListChildren pid None 100 # rest0" "\<forall>ev\<in>set rest0. is_list ev" by blast
  show ?thesis
  proof (cases res)
    case (Inl err)
    with process_notion_content_ready [OF assms(1-4)] assms(5,6) Some y tr0 show ?thesis
      by simp
  next
    case (Inr fetched)
    show ?thesis
    proof (cases "blank (Some fetched)")
      case True
      with process_notion_content_ready [OF assms(1-4)] assms(5,6) Some y tr0 Inr show ?thesis
        by simp
    next
      case False
      with process_notion_content_ready [OF assms(1-4)] assms(5,6) Some y Inr
      have "process_content (Some (notion_api e)) (gemini_api e) pid (action req) fetched tr0 = (r, tr)"
        by simp
      from process_content_cases [OF this] tr0 show ?thesis by auto
    qed
  qed
qed

text \<open>Every way the handler ends: listing calls first, then at most a generation and an append.\<close>

lemma process_notion_content_outcomes:
  assumes "process_notion_content e req = Some (r, tr)"
  shows "\<exists>tr0. (\<forall>ev\<in>set tr0. is_list ev) \<and>
    ((tr = tr0 \<and> (\<exists>c msg. r = error_reply c msg \<and> (c = 400 \<or> c = 500)))
     \<or> (\<exists>p err. generateContent (gemini_api e) p = Inl err \<and>
           r = respond_failed err \<and> tr = tr0 @ [GenerateContent p])
     \<or> (\<exists>pid p g err. generateContent (gemini_api e) p = Inr g \<and>
           children_append (notion_api e) pid [NewParagraph g False] = Inl err \<and>
           r = respond_failed (''Failed to append content to Notion: '' @ err) \<and>
           tr = tr0 @ [GenerateContent p, AppendChildren pid [NewParagraph g False]])
     \<or> (\<exists>pid p g. generateContent (gemini_api e) p = Inr g \<and>
           children_append (notion_api e) pid [NewParagraph g False] = Inr () \<and>
           r = \<lparr>code = 200,
                 json_body = [(''message'', JString ''Content processed and appended to Notion.''),
                              (''geminiResponse'', JString g)]\<rparr> \<and>
           tr = tr0 @ [GenerateContent p, AppendChildren pid [NewParagraph g False]]))"
proof -
  let ?goal = "\<lambda>tr0. (\<forall>ev\<in>set tr0. is_list ev) \<and>
    ((tr = tr0 \<and> (\<exists>c msg. r = error_reply c msg \<and> (c = 400 \<or> c = 500)))
     \<or> (\<exists>p err. generateContent (gemini_api e) p = Inl err \<and>
           r = respond_failed err \<and> tr = tr0 @ [GenerateContent p])
     \<or> (\<exists>pid p g err. generateContent (gemini_api e) p = Inr g \<and>
           children_append (notion_api e) pid [NewParagraph g False] = Inl err \<and>
           r = respond_failed (''Failed to append content to Notion: '' @ err) \<and>
           tr = tr0 @ [GenerateContent p, AppendChildren pid [NewParagraph g False]])
     \<or> (\<exists>pid p g. generateContent (gemini_api e) p = Inr g \<and>
           children_append (notion_api e) pid [NewParagraph g False] = Inr () \<and>
           r = \<lparr>code = 200,
                 json_body = [(''message'', JString ''Content processed and appended to Notion.''),
                              (''geminiResponse'', JString g)]\<rparr> \<and>
           tr = tr0 @ [GenerateContent p, AppendChildren pid [NewParagraph g False]]))"
  have listed: "\<forall>ev\<in>set tr0. is_list ev"
    if "fetchNotionPageContent (Some (notion_api e)) pid = Some (res, tr0)" for pid res tr0
    using fetchNotionPageContent_trace [OF that] by auto
  have processed: "?goal tr0"
    if "process_content (Some (notion_api e)) (gemini_api e) pid (action req) input tr0 = (r, tr)"
      and "\<forall>ev\<in>set tr0. is_list ev" for pid input tr0
    using process_content_cases [OF that(1)] that(2) by blast
  have plain: "?goal tr0"
    if "\<forall>ev\<in>set tr0. is_list ev" and "tr = tr0" and "r = error_reply c msg" and "c = 400 \<or> c = 500"
    for tr0 c msg
  proof (intro conjI disjI1)
    show "\<forall>ev\<in>set tr0. is_list ev" by (rule that(1))
    show "tr = tr0" by (rule that(2))
    show "\<exists>c msg. r = error_reply c msg \<and> (c = 400 \<or> c = 500)"
      using that(3,4) by (intro exI conjI)
  qed
  from process_notion_content_cases [OF assms]
  consider (early) c msg where "r = error_reply c msg \<and> (c = 400 \<or> c = 500) \<and> tr = []"
    | (failed) pid err where "fetchNotionPageContent (Some (notion_api e)) pid = Some (Inl err, tr)
        \<and> r = respond_failed err"
    | (empty) pid fetched where "fetchNotionPageContent (Some (notion_api e)) pid = Some (Inr fetched, tr)
        \<and> r = error_reply 400 ''No readable content found on the specified Notion page to process.''"
    | (fetched) pid fetched tr0 where
        "fetchNotionPageContent (Some (notion_api e)) pid = Some (Inr fetched, tr0)
         \<and> process_content (Some (notion_api e)) (gemini_api e) pid (action req) fetched tr0 = (r, tr)"
    | (given) pid where
        "process_content (Some (notion_api e)) (gemini_api e) pid (action req) (the (content req)) [] = (r, tr)"
    by blast
  then show ?thesis
  proof cases
    case (early c msg)
    show ?thesis
    proof (rule exI)
      from early show "?goal []" by (intro plain [of "[]" c msg]) simp_all
    qed
  next
    case (failed pid err)
    show ?thesis
    proof (rule exI)
      from failed show "?goal tr"
        by (intro plain [of tr 500 "''Failed to process request: '' @ err"] listed [of pid "Inl err"])
          (simp_all add: respond_failed_def)
    qed
  next
    case (empty pid fetched)
    show ?thesis
    proof (rule exI)
      from empty show "?goal tr"
        by (intro plain [of tr 400
              "''No readable content found on the specified Notion page to process.''"]
            listed [of pid "Inr fetched"]) simp_all
    qed
  next
    case (fetched pid fetched tr0)
    show ?thesis
    proof (rule exI)
      from fetched
      have a: "fetchNotionPageContent (Some (notion_api e)) pid = Some (Inr fetched, tr0)"
        and b: "process_content (Some (notion_api e)) (gemini_api e) pid (action req) fetched tr0 = (r, tr)"
        by simp_all
      from processed [OF b listed [OF a]] show "?goal tr0" .
    qed
  next
    case (given pid)
    show ?thesis
    proof (rule exI)
      have "\<forall>ev\<in>set []. is_list ev" by simp
      from processed [OF given this] show "?goal []" .
    qed
  qed
qed

text \<open>Evaluation on the example inputs.\<close>

lemma env_of_simps:
  "NOTION_API_KEY (env_of store gen f) = Some ''secret_abc''"
  "GEMINI_API_KEY (env_of store gen f) = Some ''AIza''"
  "notion_api (env_of store gen f) = store"
  "gemini_api (env_of store gen f) = gen"
  "fetch (env_of store gen f) = f"
  by (simp_all add: env_of_def)

lemma fetch_two_pages:
  "fetchNotionPageContent (Some two_pages) ''P1'' =
     Some (Inr (''Hello '' @ nl @ ''world'' @ nl),
           [ListChildren ''P1'' None 100, ListChildren ''P1'' (Some ''c1'') 100])"
proof -
  have "serves two_pages ''P1'' None
     [\<lparr>results = [para [''Hello '']], next_cursor = Some ''c1''\<rparr>,
      \<lparr>results = [para [''world'']], next_cursor = None\<rparr>]"
    by (simp add: two_pages_def)
  from list_loop_serves [OF this, of "[]" "[]"] show ?thesis
    by (simp add: fetchNotionPageContent_def block_step_para)
qed

lemma fetch_divider_only:
  "fetchNotionPageContent (Some divider_only) ''P1'' = Some (Inr [], [ListChildren ''P1'' None 100])"
proof -
  have "serves divider_only ''P1'' None [\<lparr>results = [divider], next_cursor = None\<rparr>]"
    by (simp add: divider_only_def)
  from list_loop_serves [OF this, of "[]" "[]"] show ?thesis
    by (simp add: fetchNotionPageContent_def block_step_divider)
qed

section \<open>The handler of \<^verbatim>\<open>part_000\<close>, case by case\<close>

lemma startsWith_nonempty:
  "startsWith s (p # ps) \<Longrightarrow> s \<noteq> []"
  by (cases s) simp_all

text \<open>The ways \<open>write_back\<close> ends.\<close>

lemma write_back_cases:
  assumes "write_back client req g tr1 = (r, tr)"
  shows
    "tr = tr1
     \<or> (\<exists>pid act err. notionPageId req = Some pid \<and> action req = Some act \<and>
           children_append client pid (notionBlocks act g) = Inl err \<and>
           r = respond_unexpected err \<and>
           tr = tr1 @ [AppendChildren pid (notionBlocks act g)])
     \<or> (\<exists>pid act. notionPageId req = Some pid \<and> action req = Some act \<and>
           children_append client pid (notionBlocks act g) = Inr () \<and>
           tr = tr1 @ [AppendChildren pid (notionBlocks act g)])"
proof (cases "notionPageId req")
  case None
  with assms show ?thesis by (simp add: write_back_def)
next
  case (Some pid)
  show ?thesis
  proof (cases "pid = []")
    case True
    with Some assms show ?thesis by (simp add: write_back_def)
  next
    case False
    show ?thesis
    proof (cases "action req")
      case None
      with Some False assms show ?thesis by (simp add: write_back_def)
    next
      case act: (Some act)
      show ?thesis
      proof (cases "children_append client pid (notionBlocks act g)")
        case (Inl err)
        with Some False act assms show ?thesis by (simp add: write_back_def)
      next
        case (Inr u)
        with Some False act assms show ?thesis by (simp add: write_back_def)
      qed
    qed
  qed
qed

text \<open>The ways \<open>process_source\<close> ends.\<close>

lemma process_source_cases:
  assumes "process_source e req src tr0 = (r, tr)"
  shows
    "tr = tr0
     \<or> (\<exists>p err. switch_action_part000 (action req) (content req) (take 15000 (the src)) = Inr p \<and>
           generateContent (gemini_api e) p = Inl err \<and>
           r = respond_unexpected err \<and> tr = tr0 @ [GenerateContent p])
     \<or> (\<exists>p g. switch_action_part000 (action req) (content req) (take 15000 (the src)) = Inr p \<and>
           generateContent (gemini_api e) p = Inr g \<and>
           write_back (notion_api e) req g (tr0 @ [GenerateContent p]) = (r, tr))"
proof (cases "blank src")
  case True
  with assms show ?thesis by (simp add: process_source_def)
next
  case False
  show ?thesis
  proof (cases "switch_action_part000 (action req) (content req) (take 15000 (the src))")
    case (Inl err)
    with False assms show ?thesis by (simp add: process_source_def)
  next
    case (Inr p)
    show ?thesis
    proof (cases "generateContent (gemini_api e) p")
      case (Inl err)
      with False Inr assms show ?thesis by (simp add: process_source_def)
    next
      case g: (Inr g)
      with False Inr assms show ?thesis by (simp add: process_source_def)
    qed
  qed
qed

text \<open>In a run of \<open>process_source\<close>, the generator's prompt and a failed append.\<close>

lemma process_source_prompt:
  assumes "process_source e req src tr0 = (r, tr)"
    and "\<forall>ev\<in>set tr0. \<not> is_generate ev" and "GenerateContent prompt \<in> set tr"
  shows "switch_action_part000 (action req) (content req) (take 15000 (the src)) = Inr prompt"
proof -
  from process_source_cases [OF assms(1)]
  consider (none) "tr = tr0"
    | (failed) p where
        "switch_action_part000 (action req) (content req) (take 15000 (the src)) = Inr p"
        "tr = tr0 @ [GenerateContent p]"
    | (written) p g where
        "switch_action_part000 (action req) (content req) (take 15000 (the src)) = Inr p"
        "write_back (notion_api e) req g (tr0 @ [GenerateContent p]) = (r, tr)"
    by blast
  moreover have quiet: "GenerateContent prompt \<notin> set tr0"
  proof
    assume "GenerateContent prompt \<in> set tr0"
    with assms(2) have "\<not> is_generate (GenerateContent prompt)" by (rule bspec)
    then show False by simp
  qed
  ultimately show ?thesis
  proof cases
    case none
    with assms(3) quiet show ?thesis by simp
  next
    case failed
    with assms(3) quiet show ?thesis by simp
  next
    case written
    from write_back_cases [OF written(2)] assms(3) quiet have "prompt = p" by auto
    with written(1) show ?thesis by simp
  qed
qed

lemma process_source_append_failed:
  assumes "process_source e req src tr0 = (r, tr)"
    and "\<forall>ev\<in>set tr0. \<not> is_append ev" and "AppendChildren pid children \<in> set tr"
    and "children_append (notion_api e) pid children = Inl err"
  shows "r = respond_unexpected err"
proof -
  from process_source_cases [OF assms(1)]
  consider (none) "tr = tr0"
    | (failed) p where "tr = tr0 @ [GenerateContent p]"
    | (written) p g where
        "write_back (notion_api e) req g (tr0 @ [GenerateContent p]) = (r, tr)"
    by blast
  moreover have quiet: "AppendChildren pid children \<notin> set tr0"
  proof
    assume "AppendChildren pid children \<in> set tr0"
    with assms(2) have "\<not> is_append (AppendChildren pid children)" by (rule bspec)
    then show False by simp
  qed
  ultimately show ?thesis
  proof cases
    case none
    with assms(3) quiet show ?thesis by simp
  next
    case failed
    with assms(3) quiet show ?thesis by simp
  next
    case written
    from write_back_cases [OF written] assms(3,4) quiet show ?thesis by auto
  qed
qed

text \<open>The handler, for a request that names a URL and for one that does not.\<close>

lemma process_part000_url:
  assumes "truthy (NOTION_API_KEY e)" and "truthy (GEMINI_API_KEY e)"
    and "content req = Some url"
    and "startsWith url ''http://'' \<or> startsWith url ''https://''"
  shows "process_notion_content_part000 e req =
     (case fetch e (proxyUrl url) of
        Inl err \<Rightarrow> (respond_url_failed url err, [Fetch (proxyUrl url)])
      | Inr response \<Rightarrow>
          if \<not> ok response
          then (respond_url_failed url (''HTTP error! status: '' @ show_nat (status response)),
                [Fetch (proxyUrl url)])
          else (case text_body response of
                  Inl err \<Rightarrow> (respond_url_failed url err, [Fetch (proxyUrl url)])
                | Inr body \<Rightarrow> process_source e req (Some body) [Fetch (proxyUrl url)]))"
proof -
  from assms(4) have "url \<noteq> []" using startsWith_nonempty by blast
  with assms(1,2,4) show ?thesis
    unfolding process_notion_content_part000_def assms(3) option.sel by simp
qed

lemma process_part000_plain:
  assumes "truthy (NOTION_API_KEY e)" and "truthy (GEMINI_API_KEY e)"
    and "content req = Some c"
    and "\<not> startsWith c ''http://''" and "\<not> startsWith c ''https://''"
  shows "process_notion_content_part000 e req = process_source e req (Some c) []"
  using assms by (simp add: process_notion_content_part000_def)

lemma process_part000_cases:
  assumes "process_notion_content_part000 e req = (r, tr)"
  shows "(\<forall>ev\<in>set tr. \<not> is_generate ev \<and> \<not> is_append ev)
     \<or> (\<exists>src tr0. (\<forall>ev\<in>set tr0. \<not> is_generate ev \<and> \<not> is_append ev) \<and>
           process_source e req src tr0 = (r, tr))"
proof (cases "\<not> truthy (NOTION_API_KEY e) \<or> \<not> truthy (GEMINI_API_KEY e)")
  case True
  with assms have "tr = []" by (auto simp: process_notion_content_part000_def)
  then show ?thesis by simp
next
  case keys: False
  show ?thesis
  proof (cases "truthy (content req) \<and>
      (startsWith (the (content req)) ''http://'' \<or> startsWith (the (content req)) ''https://'')")
    case False
    with keys assms have "process_source e req (content req) [] = (r, tr)"
      by (simp add: process_notion_content_part000_def)
    moreover have "\<forall>ev\<in>set []. \<not> is_generate ev \<and> \<not> is_append ev" by simp
    ultimately show ?thesis by blast
  next
    case True
    let ?u = "proxyUrl (the (content req))"
    have quiet: "\<forall>ev\<in>set [Fetch ?u]. \<not> is_generate ev \<and> \<not> is_append ev" by simp
    show ?thesis
    proof (cases "fetch e ?u")
      case (Inl err)
      with keys True assms have "tr = [Fetch ?u]"
        by (simp add: process_notion_content_part000_def)
      then show ?thesis by simp
    next
      case (Inr response)
      show ?thesis
      proof (cases "ok response")
        case False
        with keys True Inr assms have "tr = [Fetch ?u]"
          by (simp add: process_notion_content_part000_def)
        then show ?thesis by simp
      next
        case ok: True
        show ?thesis
        proof (cases "text_body response")
          case (Inl err)
          with keys True Inr ok assms have "tr = [Fetch ?u]"
            by (simp add: process_notion_content_part000_def)
          then show ?thesis by simp
        next
          case body: (Inr body)
          with keys True Inr ok assms have "process_source e req (Some body) [Fetch ?u] = (r, tr)"
            by (simp add: process_notion_content_part000_def)
          with quiet show ?thesis by blast
        qed
      qed
    qed
  qed
qed

section \<open>The pipeline of \<^verbatim>\<open>server.js\<close>: the claims\<close>

text \<open>
  C5. When the request's content is present and not blank after trimming, the handler
  returns, no listing call is ever made, whatever the page identifier, and the prompt sent
  to the generator is built from that content as it is. For a request with a page identifier, handled with
  both clients initialised: such content goes unchanged into prompt building; absent or
  blank content is replaced by what \<^verbatim>\<open>fetchNotionPageContent\<close> returns for the request's
  page identifier, the first call made being the listing of that page.
\<close>

theorem content_resolution:
  "(\<not> blank (content req) \<longrightarrow>
      process_notion_content e req \<noteq> None \<and>
      (\<forall>r tr. process_notion_content e req = Some (r, tr) \<longrightarrow>
         (\<forall>ev\<in>set tr. \<not> is_list ev) \<and>
         (\<forall>p. GenerateContent p \<in> set tr \<longrightarrow>
            switch_action (action req) (the (content req)) = Some p)))
   \<and> (notionPageId req = Some pid \<and> pid \<noteq> [] \<and>
       truthy (NOTION_API_KEY e) \<and> truthy (GEMINI_API_KEY e) \<longrightarrow>
        (\<not> blank (content req) \<longrightarrow>
           process_notion_content e req =
             Some (process_content (Some (notion_api e)) (gemini_api e) pid (action req)
                     (the (content req)) []))
      \<and> (blank (content req) \<longrightarrow>
           process_notion_content e req =
             (case fetchNotionPageContent (Some (notion_api e)) pid of
                None \<Rightarrow> None
              | Some (Inl err, tr) \<Rightarrow> Some (respond_failed err, tr)
              | Some (Inr fetched, tr) \<Rightarrow>
                  if blank (Some fetched)
                  then Some (error_reply 400
                    ''No readable content found on the specified Notion page to process.'', tr)
                  else Some (process_content (Some (notion_api e)) (gemini_api e) pid
                               (action req) fetched tr))
           \<and> (\<forall>r tr. process_notion_content e req = Some (r, tr) \<longrightarrow>
                 (\<exists>rest. tr = ListChildren pid None 100 # rest))))"
proof (rule conjI)
  show "\<not> blank (content req) \<longrightarrow>
      process_notion_content e req \<noteq> None \<and>
      (\<forall>r tr. process_notion_content e req = Some (r, tr) \<longrightarrow>
         (\<forall>ev\<in>set tr. \<not> is_list ev) \<and>
         (\<forall>p. GenerateContent p \<in> set tr \<longrightarrow>
            switch_action (action req) (the (content req)) = Some p))"
  proof (intro impI conjI allI)
    assume "\<not> blank (content req)"
    then show "process_notion_content e req \<noteq> None" by (rule content_given_returns)
  next
    fix r tr
    assume "\<not> blank (content req)" "process_notion_content e req = Some (r, tr)"
    then have *: "(\<forall>ev\<in>set tr. \<not> is_list ev) \<and>
         (\<forall>p. GenerateContent p \<in> set tr \<longrightarrow>
            switch_action (action req) (the (content req)) = Some p)"
      by (rule content_given_trace)
    from * show "\<forall>ev\<in>set tr. \<not> is_list ev" by (rule conjunct1)
    fix p assume "GenerateContent p \<in> set tr"
    with * show "switch_action (action req) (the (content req)) = Some p" by blast
  qed
next
  show "notionPageId req = Some pid \<and> pid \<noteq> [] \<and>
       truthy (NOTION_API_KEY e) \<and> truthy (GEMINI_API_KEY e) \<longrightarrow>
        (\<not> blank (content req) \<longrightarrow>
           process_notion_content e req =
             Some (process_content (Some (notion_api e)) (gemini_api e) pid (action req)
                     (the (content req)) []))
      \<and> (blank (content req) \<longrightarrow>
           process_notion_content e req =
             (case fetchNotionPageContent (Some (notion_api e)) pid of
                None \<Rightarrow> None
              | Some (Inl err, tr) \<Rightarrow> Some (respond_failed err, tr)
              | Some (Inr fetched, tr) \<Rightarrow>
                  if blank (Some fetched)
                  then Some (error_reply 400
                    ''No readable content found on the specified Notion page to process.'', tr)
                  else Some (process_content (Some (notion_api e)) (gemini_api e) pid
                               (action req) fetched tr))
           \<and> (\<forall>r tr. process_notion_content e req = Some (r, tr) \<longrightarrow>
                 (\<exists>rest. tr = ListChildren pid None 100 # rest)))"
  proof (rule impI)
    assume "notionPageId req = Some pid \<and> pid \<noteq> [] \<and>
       truthy (NOTION_API_KEY e) \<and> truthy (GEMINI_API_KEY e)"
    then have ready: "notionPageId req = Some pid" "pid \<noteq> []"
      "truthy (NOTION_API_KEY e)" "truthy (GEMINI_API_KEY e)" by simp_all
    note eq = process_notion_content_ready [OF ready]
    have a: "\<not> blank (content req) \<Longrightarrow> process_notion_content e req =
        Some (process_content (Some (notion_api e)) (gemini_api e) pid (action req)
               (the (content req)) [])"
      by (simp add: eq)
    have b: "blank (content req) \<Longrightarrow> process_notion_content e req =
        (case fetchNotionPageContent (Some (notion_api e)) pid of
           None \<Rightarrow> None
         | Some (Inl err, tr) \<Rightarrow> Some (respond_failed err, tr)
         | Some (Inr fetched, tr) \<Rightarrow>
             if blank (Some fetched)
             then Some (error_reply 400
               ''No readable content found on the specified Notion page to process.'', tr)
             else Some (process_content (Some (notion_api e)) (gemini_api e) pid
                          (action req) fetched tr))"
      by (simp add: eq)
    have c: "blank (content req) \<Longrightarrow> process_notion_content e req = Some (r, tr) \<Longrightarrow>
        \<exists>rest. tr = ListChildren pid None 100 # rest" for r tr
      using content_fetched_trace [OF ready] by blast
    from a b c show "(\<not> blank (content req) \<longrightarrow>
           process_notion_content e req =
             Some (process_content (Some (notion_api e)) (gemini_api e) pid (action req)
                     (the (content req)) []))
      \<and> (blank (content req) \<longrightarrow>
           process_notion_content e req =
             (case fetchNotionPageContent (Some (notion_api e)) pid of
                None \<Rightarrow> None
              | Some (Inl err, tr) \<Rightarrow> Some (respond_failed err, tr)
              | Some (Inr fetched, tr) \<Rightarrow>
                  if blank (Some fetched)
                  then Some (error_reply 400
                    ''No readable content found on the specified Notion page to process.'', tr)
                  else Some (process_content (Some (notion_api e)) (gemini_api e) pid
                               (action req) fetched tr))
           \<and> (\<forall>r tr. process_notion_content e req = Some (r, tr) \<longrightarrow>
                 (\<exists>rest. tr = ListChildren pid None 100 # rest)))"
      by (intro conjI impI allI)
  qed
qed

theorem content_resolution_witness:
  "\<not> blank (content \<lparr>content = Some ''Hello'', action = Some ''summarize'', notionPageId = Some ''P1''\<rparr>)
   \<and> process_notion_content (env_of one_page gen_ok fetch_ok)
        \<lparr>content = Some ''Hello'', action = Some ''summarize'', notionPageId = Some ''P1''\<rparr> =
       Some (\<lparr>code = 200,
               json_body = [(''message'', JString ''Content processed and appended to Notion.''),
                            (''geminiResponse'', JString ''Summary.'')]\<rparr>,
             [GenerateContent (''Summarize the following content concisely:'' @ nl @ nl @ ''Hello''),
              AppendChildren ''P1'' [NewParagraph ''Summary.'' False]])
   \<and> blank (content \<lparr>content = Some ''  '', action = Some ''summarize'', notionPageId = Some ''P1''\<rparr>)
   \<and> process_notion_content (env_of two_pages gen_ok fetch_ok)
        \<lparr>content = Some ''  '', action = Some ''summarize'', notionPageId = Some ''P1''\<rparr> =
       Some (\<lparr>code = 200,
               json_body = [(''message'', JString ''Content processed and appended to Notion.''),
                            (''geminiResponse'', JString ''Summary.'')]\<rparr>,
             [ListChildren ''P1'' None 100, ListChildren ''P1'' (Some ''c1'') 100,
              GenerateContent (''Summarize the following content concisely:'' @ nl @ nl
                               @ ''Hello '' @ nl @ ''world'' @ nl),
              AppendChildren ''P1'' [NewParagraph ''Summary.'' False]])"
proof -
  have given: "process_notion_content (env_of one_page gen_ok fetch_ok)
        \<lparr>content = Some ''Hello'', action = Some ''summarize'', notionPageId = Some ''P1''\<rparr> =
      Some (process_content (Some one_page) gen_ok ''P1'' (Some ''summarize'') ''Hello'' [])"
    using content_resolution
      [of "\<lparr>content = Some ''Hello'', action = Some ''summarize'', notionPageId = Some ''P1''\<rparr>"
        "env_of one_page gen_ok fetch_ok" "''P1''"]
    by (simp add: env_of_simps trim_def is_space_def nl_def)
  have fetched: "process_notion_content (env_of two_pages gen_ok fetch_ok)
        \<lparr>content = Some ''  '', action = Some ''summarize'', notionPageId = Some ''P1''\<rparr> =
      Some (process_content (Some two_pages) gen_ok ''P1'' (Some ''summarize'')
              (''Hello '' @ nl @ ''world'' @ nl)
              [ListChildren ''P1'' None 100, ListChildren ''P1'' (Some ''c1'') 100])"
    using content_resolution
      [of "\<lparr>content = Some ''  '', action = Some ''summarize'', notionPageId = Some ''P1''\<rparr>"
        "env_of two_pages gen_ok fetch_ok" "''P1''"]
    by (simp add: env_of_simps fetch_two_pages trim_def is_space_def nl_def)
  have run: "process_content (Some store) gen_ok ''P1'' (Some ''summarize'') input tr0 =
      (\<lparr>code = 200,
        json_body = [(''message'', JString ''Content processed and appended to Notion.''),
                     (''geminiResponse'', JString ''Summary.'')]\<rparr>,
       tr0 @ [GenerateContent (''Summarize the following content concisely:'' @ nl @ nl @ input),
              AppendChildren ''P1'' [NewParagraph ''Summary.'' False]])"
    if "children_append store ''P1'' [NewParagraph ''Summary.'' False] = Inr ()" for store input tr0
    using that
    by (simp add: process_content_def switch_action_def generate_and_append_def
        appendContentToNotion_def gen_ok_def)
  have a1: "children_append one_page ''P1'' [NewParagraph ''Summary.'' False] = Inr ()"
    by (simp add: one_page_def)
  have a2: "children_append two_pages ''P1'' [NewParagraph ''Summary.'' False] = Inr ()"
    by (simp add: two_pages_def)
  show ?thesis
    by (simp add: given fetched run [OF a1] run [OF a2] trim_def is_space_def nl_def)
qed

text \<open>
  C6. Take a request with a page identifier whose content is absent or blank, and a page
  for which \<^verbatim>\<open>fetchNotionPageContent\<close> returns a text that is empty or blank. However the
  request ends, the reply is not a success and the generator and the append are never
  called; with both clients initialised the reply is status 400 with the error
  \<^verbatim>\<open>No readable content found ...\<close>, after the listing calls of the extraction.
\<close>

theorem empty_content_rejected:
  assumes "notionPageId req = Some pid" and "pid \<noteq> []"
    and "blank (content req)"
    and "fetchNotionPageContent (Some (notion_api e)) pid = Some (Inr fetched, tr)"
    and "blank (Some fetched)"
  shows "(truthy (NOTION_API_KEY e) \<and> truthy (GEMINI_API_KEY e) \<longrightarrow>
      process_notion_content e req =
        Some (\<lparr>code = 400,
                json_body = [(''error'', JString
                  ''No readable content found on the specified Notion page to process.'')]\<rparr>, tr))
    \<and> (\<exists>r tr'. process_notion_content e req = Some (r, tr') \<and> code r \<noteq> 200 \<and>
          (\<forall>ev\<in>set tr'. \<not> is_generate ev \<and> \<not> is_append ev))"
proof -
  from fetchNotionPageContent_trace [OF assms(4)]
  have "\<forall>ev\<in>set tr. is_list ev" by auto
  then have quiet: "\<forall>ev\<in>set tr. \<not> is_generate ev \<and> \<not> is_append ev"
    using list_event_kinds by blast
  have ready: "process_notion_content e req =
      Some (\<lparr>code = 400,
              json_body = [(''error'', JString
                ''No readable content found on the specified Notion page to process.'')]\<rparr>, tr)"
    if "truthy (NOTION_API_KEY e)" "truthy (GEMINI_API_KEY e)"
    using process_notion_content_ready [OF assms(1,2) that] assms(3-5)
    by (simp add: error_reply_def)
  have "\<exists>r tr'. process_notion_content e req = Some (r, tr') \<and> code r \<noteq> 200 \<and>
          (\<forall>ev\<in>set tr'. \<not> is_generate ev \<and> \<not> is_append ev)"
  proof (cases "truthy (NOTION_API_KEY e) \<and> truthy (GEMINI_API_KEY e)")
    case True
    then have "process_notion_content e req =
      Some (\<lparr>code = 400,
              json_body = [(''error'', JString
                ''No readable content found on the specified Notion page to process.'')]\<rparr>, tr)"
      using ready by blast
    with quiet show ?thesis by simp
  next
    case False
    then have "\<not> (\<exists>pid. notionPageId req = Some pid \<and> pid \<noteq> []) \<or>
      \<not> truthy (NOTION_API_KEY e) \<or> \<not> truthy (GEMINI_API_KEY e)" by blast
    from process_notion_content_not_ready [OF this]
    obtain c msg where "process_notion_content e req = Some (error_reply c msg, [])"
      "c = 400 \<or> c = 500" by blast
    then show ?thesis by (auto simp: error_reply_def)
  qed
  with ready show ?thesis by blast
qed

theorem empty_content_rejected_witness:
  "blank (content \<lparr>content = Some ''  '', action = Some ''summarize'', notionPageId = Some ''P1''\<rparr>)
   \<and> fetchNotionPageContent (Some (notion_api (env_of divider_only gen_ok fetch_ok))) ''P1'' =
       Some (Inr [], [ListChildren ''P1'' None 100])
   \<and> blank (Some [])
   \<and> process_notion_content (env_of divider_only gen_ok fetch_ok)
        \<lparr>content = Some ''  '', action = Some ''summarize'', notionPageId = Some ''P1''\<rparr> =
       Some (\<lparr>code = 400,
               json_body = [(''error'', JString
                 ''No readable content found on the specified Notion page to process.'')]\<rparr>,
             [ListChildren ''P1'' None 100])"
proof -
  have f: "fetchNotionPageContent (Some (notion_api (env_of divider_only gen_ok fetch_ok))) ''P1'' =
       Some (Inr [], [ListChildren ''P1'' None 100])"
    by (simp add: env_of_simps fetch_divider_only)
  have b: "blank (content \<lparr>content = Some ''  '', action = Some ''summarize'',
      notionPageId = Some ''P1''\<rparr>)"
    by (simp add: trim_def is_space_def nl_def)
  have "process_notion_content (env_of divider_only gen_ok fetch_ok)
        \<lparr>content = Some ''  '', action = Some ''summarize'', notionPageId = Some ''P1''\<rparr> =
       Some (\<lparr>code = 400,
               json_body = [(''error'', JString
                 ''No readable content found on the specified Notion page to process.'')]\<rparr>,
             [ListChildren ''P1'' None 100])"
    using empty_content_rejected [OF _ _ b f]
    by (simp add: env_of_simps trim_def is_space_def nl_def)
  with f b show ?thesis by (simp add: trim_def is_space_def nl_def)
qed


text \<open>
  C7. Whenever the handler called the generator and that call failed, the reply is status
  500 with the error \<^verbatim>\<open>Failed to process request: \<close> followed by the generator's message,
  the generator call is the last call made, and the append is never called.
\<close>

theorem generator_failure_terminal:
  assumes "process_notion_content e req = Some (r, tr)"
    and "GenerateContent prompt \<in> set tr"
    and "generateContent (gemini_api e) prompt = Inl err"
  shows "r = \<lparr>code = 500,
               json_body = [(''error'', JString (''Failed to process request: '' @ err))]\<rparr>
    \<and> (\<forall>ev\<in>set tr. \<not> is_append ev)
    \<and> last tr = GenerateContent prompt"
proof -
  from process_notion_content_outcomes [OF assms(1)]
  obtain tr0 where listed: "\<forall>ev\<in>set tr0. is_list ev"
    and ends: "tr = tr0
      \<or> (\<exists>p err. generateContent (gemini_api e) p = Inl err \<and>
            r = respond_failed err \<and> tr = tr0 @ [GenerateContent p])
      \<or> (\<exists>p g. generateContent (gemini_api e) p = Inr g \<and>
            (\<exists>pid. tr = tr0 @ [GenerateContent p, AppendChildren pid [NewParagraph g False]]))"
    by blast
  have quiet: "GenerateContent prompt \<notin> set tr0"
  proof
    assume "GenerateContent prompt \<in> set tr0"
    with listed have "is_list (GenerateContent prompt)" by (rule bspec)
    then show False by simp
  qed
  have no_append: "\<forall>ev\<in>set tr0. \<not> is_append ev"
    using listed list_event_kinds by blast
  from ends consider (none) "tr = tr0"
    | (failed) p err' where "generateContent (gemini_api e) p = Inl err'"
        "r = respond_failed err'" "tr = tr0 @ [GenerateContent p]"
    | (generated) p g pid where "generateContent (gemini_api e) p = Inr g"
        "tr = tr0 @ [GenerateContent p, AppendChildren pid [NewParagraph g False]]"
    by blast
  then show ?thesis
  proof cases
    case none
    with assms(2) quiet show ?thesis by simp
  next
    case failed
    with assms(2) quiet have p: "p = prompt" by simp
    with failed(1) assms(3) have "err' = err" by simp
    with failed p no_append show ?thesis
      by (simp add: respond_failed_def error_reply_def)
  next
    case generated
    with assms(2) quiet have "p = prompt" by simp
    with generated(1) assms(3) show ?thesis by simp
  qed
qed

theorem generator_failure_terminal_witness:
  "process_notion_content (env_of one_page gen_fails fetch_ok)
      \<lparr>content = Some ''Hello'', action = Some ''summarize'', notionPageId = Some ''P1''\<rparr> =
     Some (\<lparr>code = 500,
             json_body = [(''error'', JString ''Failed to process request: quota exceeded'')]\<rparr>,
           [GenerateContent (''Summarize the following content concisely:'' @ nl @ nl @ ''Hello'')])
   \<and> generateContent (gemini_api (env_of one_page gen_fails fetch_ok))
        (''Summarize the following content concisely:'' @ nl @ nl @ ''Hello'') = Inl ''quota exceeded''"
proof -
  obtain r tr where run: "process_notion_content (env_of one_page gen_fails fetch_ok)
      \<lparr>content = Some ''Hello'', action = Some ''summarize'', notionPageId = Some ''P1''\<rparr> =
     Some (r, tr)"
    and tr: "tr = [GenerateContent (''Summarize the following content concisely:'' @ nl @ nl @ ''Hello'')]"
    by (simp add: process_notion_content_def notion_def model_def env_of_simps trim_def is_space_def
        process_content_def switch_action_def generate_and_append_def gen_fails_def)
  have g: "generateContent (gemini_api (env_of one_page gen_fails fetch_ok))
        (''Summarize the following content concisely:'' @ nl @ nl @ ''Hello'') = Inl ''quota exceeded''"
    by (simp add: env_of_simps gen_fails_def)
  have m: "GenerateContent (''Summarize the following content concisely:'' @ nl @ nl @ ''Hello'') \<in> set tr"
    by (simp add: tr)
  from generator_failure_terminal [OF run m g] run tr g show ?thesis by simp
qed

text \<open>
  C8, as the claim words it, fails: when the append fails after a successful generation,
  the reply holds an error message only, and the generated text is nowhere in it.
\<close>

theorem append_failure_counterexample:
  "process_notion_content (env_of append_fails gen_ok fetch_ok)
      \<lparr>content = Some ''Hello'', action = Some ''summarize'', notionPageId = Some ''P1''\<rparr> =
     Some (\<lparr>code = 500,
             json_body = [(''error'', JString
               ''Failed to process request: Failed to append content to Notion: boom'')]\<rparr>,
           [GenerateContent (''Summarize the following content concisely:'' @ nl @ nl @ ''Hello''),
            AppendChildren ''P1'' [NewParagraph ''Summary.'' False]])
   \<and> \<not> reply_mentions
         \<lparr>code = 500,
          json_body = [(''error'', JString
            ''Failed to process request: Failed to append content to Notion: boom'')]\<rparr>
         ''Summary.''
   \<and> process_notion_content_part000 (env_of append_fails gen_ok fetch_ok)
      \<lparr>content = Some ''Hello'', action = Some ''summarize'', notionPageId = Some ''P1''\<rparr> =
     (\<lparr>code = 500,
       json_body = [(''error'', JString
           ''An unexpected error occurred during AI processing or Notion interaction.''),
         (''details'', JString ''boom'')]\<rparr>,
      [GenerateContent (''Provide a concise, high-level summary of the main points and key takeaways from the following text. Keep it to 3-5 bullet points or a short paragraph. Format using Notion-compatible markdown.''
         @ nl @ indent @ ''---'' @ nl @ indent @ ''Hello''),
       AppendChildren ''P1'' (notionBlocks ''summarize'' ''Summary.'')])
   \<and> \<not> reply_mentions
         \<lparr>code = 500,
          json_body = [(''error'', JString
              ''An unexpected error occurred during AI processing or Notion interaction.''),
            (''details'', JString ''boom'')]\<rparr>
         ''Summary.''"
proof -
  have a: "process_notion_content (env_of append_fails gen_ok fetch_ok)
      \<lparr>content = Some ''Hello'', action = Some ''summarize'', notionPageId = Some ''P1''\<rparr> =
     Some (\<lparr>code = 500,
             json_body = [(''error'', JString
               ''Failed to process request: Failed to append content to Notion: boom'')]\<rparr>,
           [GenerateContent (''Summarize the following content concisely:'' @ nl @ nl @ ''Hello''),
            AppendChildren ''P1'' [NewParagraph ''Summary.'' False]])"
    by (simp add: process_notion_content_def notion_def model_def env_of_simps trim_def is_space_def
        process_content_def switch_action_def generate_and_append_def appendContentToNotion_def
        gen_ok_def append_fails_def respond_failed_def error_reply_def)
  have b: "\<not> reply_mentions
         \<lparr>code = 500,
          json_body = [(''error'', JString
            ''Failed to process request: Failed to append content to Notion: boom'')]\<rparr>
         ''Summary.''"
    by (simp add: reply_mentions_def)
  have c: "process_notion_content_part000 (env_of append_fails gen_ok fetch_ok)
      \<lparr>content = Some ''Hello'', action = Some ''summarize'', notionPageId = Some ''P1''\<rparr> =
     (\<lparr>code = 500,
       json_body = [(''error'', JString
           ''An unexpected error occurred during AI processing or Notion interaction.''),
         (''details'', JString ''boom'')]\<rparr>,
      [GenerateContent (''Provide a concise, high-level summary of the main points and key takeaways from the following text. Keep it to 3-5 bullet points or a short paragraph. Format using Notion-compatible markdown.''
         @ nl @ indent @ ''---'' @ nl @ indent @ ''Hello''),
       AppendChildren ''P1'' (notionBlocks ''summarize'' ''Summary.'')])"
    by (simp add: process_notion_content_part000_def env_of_simps process_source_def
        trim_def is_space_def switch_action_part000_def write_back_def gen_ok_def append_fails_def
        respond_unexpected_def)
  have d: "\<not> reply_mentions
         \<lparr>code = 500,
          json_body = [(''error'', JString
              ''An unexpected error occurred during AI processing or Notion interaction.''),
            (''details'', JString ''boom'')]\<rparr>
         ''Summary.''"
    by (simp add: reply_mentions_def)
  from a b c d show ?thesis by (intro conjI)
qed

text \<open>
  C8, amended. Whenever the handler called the append and that call failed, the reply is
  status 500 and holds error text only, built from the store's message: in \<^verbatim>\<open>server.js\<close>
  the one field \<^verbatim>\<open>error\<close>, \<^verbatim>\<open>Failed to process request: Failed to append content to Notion: \<close>
  followed by the message (a failed generation gives \<^verbatim>\<open>Failed to process request: \<close> and
  the generator's message); in \<^verbatim>\<open>part_000\<close> a fixed \<^verbatim>\<open>error\<close> and the message as
  \<^verbatim>\<open>details\<close>. The generated text is not a field of the reply.
\<close>

theorem append_failure_reply:
  "(process_notion_content e req = Some (r, tr) \<and> AppendChildren pid children \<in> set tr \<and>
    children_append (notion_api e) pid children = Inl err \<longrightarrow>
      r = \<lparr>code = 500,
            json_body = [(''error'', JString
              (''Failed to process request: Failed to append content to Notion: '' @ err))]\<rparr>)
   \<and> (process_notion_content_part000 e req = (r', tr') \<and> AppendChildren pid children \<in> set tr' \<and>
       children_append (notion_api e) pid children = Inl err \<longrightarrow>
      r' = \<lparr>code = 500,
             json_body = [(''error'', JString
                 ''An unexpected error occurred during AI processing or Notion interaction.''),
               (''details'', JString err)]\<rparr>)"
proof (intro conjI impI)
  assume h: "process_notion_content e req = Some (r, tr) \<and> AppendChildren pid children \<in> set tr \<and>
    children_append (notion_api e) pid children = Inl err"
  then have run: "process_notion_content e req = Some (r, tr)"
    and mem: "AppendChildren pid children \<in> set tr"
    and fails: "children_append (notion_api e) pid children = Inl err" by simp_all
  from process_notion_content_outcomes [OF run]
  obtain tr0 where listed: "\<forall>ev\<in>set tr0. is_list ev"
    and ends: "tr = tr0
      \<or> (\<exists>p. tr = tr0 @ [GenerateContent p])
      \<or> (\<exists>pid' p g err'.
           children_append (notion_api e) pid' [NewParagraph g False] = Inl err' \<and>
           r = respond_failed (''Failed to append content to Notion: '' @ err') \<and>
           tr = tr0 @ [GenerateContent p, AppendChildren pid' [NewParagraph g False]])
      \<or> (\<exists>pid' p g.
           children_append (notion_api e) pid' [NewParagraph g False] = Inr () \<and>
           tr = tr0 @ [GenerateContent p, AppendChildren pid' [NewParagraph g False]])"
    by blast
  have quiet: "AppendChildren pid children \<notin> set tr0"
  proof
    assume "AppendChildren pid children \<in> set tr0"
    with listed have "is_list (AppendChildren pid children)" by (rule bspec)
    then show False by simp
  qed
  from ends consider (none) "tr = tr0" | (failed) p where "tr = tr0 @ [GenerateContent p]"
    | (rejected) pid' p g err' where
        "children_append (notion_api e) pid' [NewParagraph g False] = Inl err'"
        "r = respond_failed (''Failed to append content to Notion: '' @ err')"
        "tr = tr0 @ [GenerateContent p, AppendChildren pid' [NewParagraph g False]]"
    | (appended) pid' p g where
        "children_append (notion_api e) pid' [NewParagraph g False] = Inr ()"
        "tr = tr0 @ [GenerateContent p, AppendChildren pid' [NewParagraph g False]]"
    by blast
  then show "r = \<lparr>code = 500,
            json_body = [(''error'', JString
              (''Failed to process request: Failed to append content to Notion: '' @ err))]\<rparr>"
  proof cases
    case none
    with mem quiet show ?thesis by simp
  next
    case failed
    with mem quiet show ?thesis by simp
  next
    case rejected
    with mem quiet have "pid' = pid" "children = [NewParagraph g False]" by simp_all
    with rejected(1) fails have "err' = err" by simp
    with rejected(2) show ?thesis by (simp add: respond_failed_def error_reply_def)
  next
    case appended
    with mem quiet have "pid' = pid" "children = [NewParagraph g False]" by simp_all
    with appended(1) fails show ?thesis by simp
  qed
next
  assume h: "process_notion_content_part000 e req = (r', tr') \<and>
      AppendChildren pid children \<in> set tr' \<and>
      children_append (notion_api e) pid children = Inl err"
  then have run: "process_notion_content_part000 e req = (r', tr')"
    and mem: "AppendChildren pid children \<in> set tr'"
    and fails: "children_append (notion_api e) pid children = Inl err" by simp_all
  from process_part000_cases [OF run]
  consider (quiet) "\<forall>ev\<in>set tr'. \<not> is_generate ev \<and> \<not> is_append ev"
    | (source) src tr0 where "\<forall>ev\<in>set tr0. \<not> is_generate ev \<and> \<not> is_append ev"
        "process_source e req src tr0 = (r', tr')"
    by blast
  then have "r' = respond_unexpected err"
  proof cases
    case quiet
    with mem have "\<not> is_append (AppendChildren pid children)" by blast
    then show ?thesis by simp
  next
    case source
    from source(1) have "\<forall>ev\<in>set tr0. \<not> is_append ev" by blast
    from process_source_append_failed [OF source(2) this mem fails] show ?thesis .
  qed
  then show "r' = \<lparr>code = 500,
             json_body = [(''error'', JString
                 ''An unexpected error occurred during AI processing or Notion interaction.''),
               (''details'', JString err)]\<rparr>"
    by (simp add: respond_unexpected_def)
qed

theorem append_failure_reply_witness:
  "process_notion_content (env_of append_fails gen_ok fetch_ok)
      \<lparr>content = Some ''Hello'', action = Some ''summarize'', notionPageId = Some ''P1''\<rparr> =
     Some (\<lparr>code = 500,
             json_body = [(''error'', JString
               ''Failed to process request: Failed to append content to Notion: boom'')]\<rparr>,
           [GenerateContent (''Summarize the following content concisely:'' @ nl @ nl @ ''Hello''),
            AppendChildren ''P1'' [NewParagraph ''Summary.'' False]])
   \<and> children_append (notion_api (env_of append_fails gen_ok fetch_ok)) ''P1''
        [NewParagraph ''Summary.'' False] = Inl ''boom''
   \<and> fst (process_notion_content_part000 (env_of append_fails gen_ok fetch_ok)
      \<lparr>content = Some ''Hello'', action = Some ''summarize'', notionPageId = Some ''P1''\<rparr>) =
     \<lparr>code = 500,
       json_body = [(''error'', JString
           ''An unexpected error occurred during AI processing or Notion interaction.''),
         (''details'', JString ''boom'')]\<rparr>
   \<and> AppendChildren ''P1'' (notionBlocks ''summarize'' ''Summary.'') \<in>
       set (snd (process_notion_content_part000 (env_of append_fails gen_ok fetch_ok)
         \<lparr>content = Some ''Hello'', action = Some ''summarize'', notionPageId = Some ''P1''\<rparr>))"
proof -
  let ?e = "env_of append_fails gen_ok fetch_ok"
  let ?req = "\<lparr>content = Some ''Hello'', action = Some ''summarize'', notionPageId = Some ''P1''\<rparr>"
  obtain r tr where run: "process_notion_content ?e ?req = Some (r, tr)"
    and tr: "tr = [GenerateContent (''Summarize the following content concisely:'' @ nl @ nl @ ''Hello''),
            AppendChildren ''P1'' [NewParagraph ''Summary.'' False]]"
    by (simp add: process_notion_content_def notion_def model_def env_of_simps trim_def is_space_def
        process_content_def switch_action_def generate_and_append_def appendContentToNotion_def
        gen_ok_def append_fails_def)
  have f: "children_append (notion_api ?e) pid children = Inl ''boom''" for pid children
    by (simp add: env_of_simps append_fails_def)
  have m: "AppendChildren ''P1'' [NewParagraph ''Summary.'' False] \<in> set tr"
    by (simp add: tr)
  obtain r' tr' where run': "process_notion_content_part000 ?e ?req = (r', tr')"
    by (cases "process_notion_content_part000 ?e ?req")
  have m': "AppendChildren ''P1'' (notionBlocks ''summarize'' ''Summary.'') \<in> set tr'"
    using run'
    by (auto simp: process_notion_content_part000_def env_of_simps process_source_def
        trim_def is_space_def switch_action_part000_def write_back_def gen_ok_def append_fails_def)
  from append_failure_reply [of ?e ?req r tr "''P1''" "[NewParagraph ''Summary.'' False]" "''boom''"]
    run m f
  have 1: "r = \<lparr>code = 500,
             json_body = [(''error'', JString
               ''Failed to process request: Failed to append content to Notion: boom'')]\<rparr>"
    by simp
  from append_failure_reply [where e = ?e and req = ?req and r' = r' and tr' = tr'
      and pid = "''P1''" and children = "notionBlocks ''summarize'' ''Summary.''" and err = "''boom''"]
    run' m' f
  have 2: "r' = \<lparr>code = 500,
       json_body = [(''error'', JString
           ''An unexpected error occurred during AI processing or Notion interaction.''),
         (''details'', JString ''boom'')]\<rparr>"
    by simp
  from 1 2 run run' tr m' f show ?thesis by simp
qed


text \<open>
  In \<^verbatim>\<open>part_000\<close>, every action but \<^verbatim>\<open>rephrase\<close> gives a prompt that ends with the text, the
  unlisted ones through the \<^verbatim>\<open>default\<close> branch.
\<close>

lemma switch_action_part000_prompt:
  assumes "act \<noteq> Some ''rephrase''"
  shows "\<exists>template. template \<noteq> [] \<and>
     switch_action_part000 act question contentForLLM = Inr (template @ contentForLLM)"
proof -
  have *: "switch_action_part000 act question contentForLLM = Inr (t @ contentForLLM) \<Longrightarrow>
      t \<noteq> [] \<Longrightarrow> ?thesis" for t
    by (intro exI conjI)
  consider (c_summarize) "act = Some ''summarize''" | (c_notes) "act = Some ''notes''"
    | (c_quiz) "act = Some ''quiz''" | (c_ask) "act = Some ''ask_question''"
    | (c_brainstorm) "act = Some ''brainstorm''"
    | (c_other) "act \<noteq> Some ''summarize''" "act \<noteq> Some ''notes''" "act \<noteq> Some ''quiz''"
        "act \<noteq> Some ''ask_question''" "act \<noteq> Some ''brainstorm''"
    by blast
  then show ?thesis
  proof cases
    case c_summarize
    have "switch_action_part000 act question contentForLLM =
      Inr ((''Provide a concise, high-level summary of the main points and key takeaways from the following text. Keep it to 3-5 bullet points or a short paragraph. Format using Notion-compatible markdown.''
            @ nl @ indent @ ''---'' @ nl @ indent) @ contentForLLM)"
      by (simp add: c_summarize switch_action_part000_def)
    then show ?thesis by (rule *) simp
  next
    case c_notes
    have "switch_action_part000 act question contentForLLM =
      Inr ((''Extract the most important facts, key concepts, and structured notes from the following text. Present them clearly using Notion-compatible markdown-formatted bulleted or numbered lists.''
            @ nl @ indent @ ''---'' @ nl @ indent) @ contentForLLM)"
      by (simp add: c_notes switch_action_part000_def)
    then show ?thesis by (rule *) simp
  next
    case c_quiz
    have "switch_action_part000 act question contentForLLM =
      Inr ((''Generate one challenging multiple-choice question with 4 options (A, B, C, D) and clearly indicate the correct answer at the end (e.g., ''
            @ dquote @ ''Correct Answer: B'' @ dquote
            @ '') based on the following text. Format using Notion-compatible markdown.''
            @ nl @ indent @ ''---'' @ nl @ indent) @ contentForLLM)"
      by (simp add: c_quiz switch_action_part000_def)
    then show ?thesis by (rule *) simp
  next
    case c_ask
    have "switch_action_part000 act question contentForLLM =
      Inr ((''Based on the following text, answer the question: '' @ dquote @ to_str question @ dquote
            @ ''. If the answer is not in the provided content, state that. Format using Notion-compatible markdown.''
            @ nl @ indent @ ''---'' @ nl @ indent) @ contentForLLM)"
      by (simp add: c_ask switch_action_part000_def)
    then show ?thesis by (rule *) simp
  next
    case c_brainstorm
    have "switch_action_part000 act question contentForLLM =
      Inr ((''Based on the following text, brainstorm 3-5 creative ideas, applications, or related concepts. Present them as a Notion-compatible markdown bulleted list.''
            @ nl @ indent @ ''---'' @ nl @ indent) @ contentForLLM)"
      by (simp add: c_brainstorm switch_action_part000_def)
    then show ?thesis by (rule *) simp
  next
    case c_other
    have "switch_action_part000 act question contentForLLM =
      Inr (''Analyze the following text and provide a general overview. Format using Notion-compatible markdown: ''
            @ contentForLLM)"
      using c_other assms by (simp add: switch_action_part000_def)
    then show ?thesis by (rule *) simp
  qed
qed

text \<open>In \<^verbatim>\<open>part_000\<close>, only the \<^verbatim>\<open>ask_question\<close> template reads the content field.\<close>

lemma switch_action_part000_question:
  "act \<noteq> Some ''ask_question'' \<Longrightarrow>
   switch_action_part000 act question contentForLLM = switch_action_part000 act question' contentForLLM"
  by (simp add: switch_action_part000_def)

lemma switch_action_part000_suffix:
  assumes "switch_action_part000 act question contentForLLM = Inr prompt"
  shows "\<exists>template. prompt = template @ contentForLLM"
proof -
  from assms have "act \<noteq> Some ''rephrase''"
    by (auto simp: switch_action_part000_def)
  from switch_action_part000_prompt [OF this, of question contentForLLM] assms
  obtain template where "prompt = template @ contentForLLM" by auto
  then show ?thesis by (rule exI)
qed

subsection \<open>\<^verbatim>\<open>encodeURIComponent\<close> loses nothing\<close>

text \<open>Two hexadecimal digits name one value below 256.\<close>

lemma hex_digit_inj:
  assumes "i < 16" and "j < 16"
    and "''0123456789ABCDEF'' ! i = ''0123456789ABCDEF'' ! j"
  shows "i = j"
proof -
  have "distinct ''0123456789ABCDEF''" by simp
  with assms show ?thesis by (simp add: nth_eq_iff_index_eq)
qed

lemma percent_inj:
  assumes "n < 256" and "m < 256" and "percent n = percent m"
  shows "n = m"
proof -
  from assms(1,2) have b: "n div 16 < 16" "m div 16 < 16" "n mod 16 < 16" "m mod 16 < 16"
    by simp_all
  from assms(3) have "''0123456789ABCDEF'' ! (n div 16) = ''0123456789ABCDEF'' ! (m div 16)"
    and "''0123456789ABCDEF'' ! (n mod 16) = ''0123456789ABCDEF'' ! (m mod 16)"
    by (simp_all add: percent_def)
  with b have "n div 16 = m div 16" "n mod 16 = m mod 16"
    by (blast intro: hex_digit_inj)+
  then show ?thesis by (metis div_mult_mod_eq)
qed

lemma percent_shape:
  "percent n = [CHR ''%'', ''0123456789ABCDEF'' ! (n div 16), ''0123456789ABCDEF'' ! (n mod 16)]"
  by (simp add: percent_def)

lemma unreserved_not_percent: "uri_unreserved c \<Longrightarrow> c \<noteq> CHR ''%''"
  by (auto simp: uri_unreserved_def)

text \<open>The encodings of two code units, each followed by anything, agree only for the same unit.\<close>

lemma encode_unit_prefix_free:
  assumes "encode_unit c @ xs = encode_unit d @ ys"
  shows "c = d \<and> xs = ys"
proof -
  let ?n = "of_char c :: nat" and ?m = "of_char d :: nat"
  have bn: "?n < 256" and bm: "?m < 256" by simp_all
  have hi: "192 + k div 64 < 256" "128 + k mod 64 < 256" if "k < 256" for k :: nat
    using that by simp_all
  consider (uu) "uri_unreserved c" "uri_unreserved d"
    | (up) "uri_unreserved c" "\<not> uri_unreserved d"
    | (pu) "\<not> uri_unreserved c" "uri_unreserved d"
    | (ll) "\<not> uri_unreserved c" "\<not> uri_unreserved d" "?n < 128" "?m < 128"
    | (lh) "\<not> uri_unreserved c" "\<not> uri_unreserved d" "?n < 128" "\<not> ?m < 128"
    | (hl) "\<not> uri_unreserved c" "\<not> uri_unreserved d" "\<not> ?n < 128" "?m < 128"
    | (hh) "\<not> uri_unreserved c" "\<not> uri_unreserved d" "\<not> ?n < 128" "\<not> ?m < 128"
    by blast
  then show ?thesis
  proof cases
    case uu
    with assms show ?thesis by (simp add: encode_unit_def)
  next
    case up
    with assms unreserved_not_percent [OF up(1)] show ?thesis
      by (auto simp: encode_unit_def percent_shape split: if_splits)
  next
    case pu
    with assms unreserved_not_percent [OF pu(2)] show ?thesis
      by (auto simp: encode_unit_def percent_shape split: if_splits)
  next
    case ll
    with assms have "percent ?n = percent ?m" and r: "xs = ys"
      by (simp_all add: encode_unit_def percent_shape)
    from percent_inj [OF bn bm this(1)] r show ?thesis by simp
  next
    case lh
    with assms have "percent ?n = percent (192 + ?m div 64)"
      by (simp add: encode_unit_def percent_shape)
    from percent_inj [OF bn hi(1) [OF bm] this] lh show ?thesis by simp
  next
    case hl
    with assms have "percent (192 + ?n div 64) = percent ?m"
      by (simp add: encode_unit_def percent_shape)
    from percent_inj [OF hi(1) [OF bn] bm this] hl show ?thesis by simp
  next
    case hh
    with assms have "percent (192 + ?n div 64) = percent (192 + ?m div 64)"
      and "percent (128 + ?n mod 64) = percent (128 + ?m mod 64)" and r: "xs = ys"
      by (simp_all add: encode_unit_def percent_shape)
    then have "192 + ?n div 64 = 192 + ?m div 64" "128 + ?n mod 64 = 128 + ?m mod 64"
      using percent_inj hi bn bm by blast+
    then have "?n div 64 = ?m div 64" "?n mod 64 = ?m mod 64" by simp_all
    then have "?n = ?m" by (metis div_mult_mod_eq)
    with r show ?thesis by simp
  qed
qed

lemma encode_unit_nonempty: "encode_unit c \<noteq> []"
  by (simp add: encode_unit_def percent_def)

lemma encodeURIComponent_inj:
  "encodeURIComponent s = encodeURIComponent t \<Longrightarrow> s = t"
proof (induction s arbitrary: t)
  case Nil
  then show ?case
    by (cases t) (simp_all add: encodeURIComponent_def encode_unit_nonempty)
next
  case (Cons c s)
  show ?case
  proof (cases t)
    case Nil
    with Cons.prems show ?thesis
      by (simp add: encodeURIComponent_def encode_unit_nonempty)
  next
    case (Cons d t')
    with Cons.prems have "encode_unit c @ encodeURIComponent s = encode_unit d @ encodeURIComponent t'"
      by (simp add: encodeURIComponent_def)
    from encode_unit_prefix_free [OF this] Cons.IH Cons show ?thesis by simp
  qed
qed

lemma encodeURIComponent_examples:
  "encodeURIComponent ''https://example.com/a b'' = ''https%3A%2F%2Fexample.com%2Fa%20b''"
  "encodeURIComponent ''http://example.org/?q=1'' = ''http%3A%2F%2Fexample.org%2F%3Fq%3D1''"
  by (simp_all add: encodeURIComponent_def encode_unit_def uri_unreserved_def percent_def)


section \<open>Prompt building and the URL branch: the claims\<close>

text \<open>
  C3. The claim holds for the five actions of \<^verbatim>\<open>server.js\<close> and for every action of
  \<^verbatim>\<open>part_000\<close> but one (\<open>switch_action_supported\<close>, \<open>switch_action_part000_prompt\<close>). In
  \<^verbatim>\<open>part_000\<close> the \<^verbatim>\<open>rephrase\<close> template names a variable that does not exist, so for that
  supported action no prompt is built: a request with plain, non-blank content and action
  \<^verbatim>\<open>rephrase\<close> is answered with status 500 and no call to the generator.
\<close>

theorem rephrase_request_fails:
  assumes "truthy (NOTION_API_KEY e)" and "truthy (GEMINI_API_KEY e)"
    and "content req = Some c" and "\<not> blank (Some c)"
    and "\<not> startsWith c ''http://''" and "\<not> startsWith c ''https://''"
    and "action req = Some ''rephrase''"
  shows "switch_action_part000 (action req) (content req) (take 15000 c) =
      Inl ''contentForLLLLM is not defined''
    \<and> process_notion_content_part000 e req =
      (\<lparr>code = 500,
        json_body = [(''error'', JString
            ''An unexpected error occurred during AI processing or Notion interaction.''),
          (''details'', JString ''contentForLLLLM is not defined'')]\<rparr>, [])"
proof -
  have s: "switch_action_part000 (action req) (content req) (take 15000 c) =
      Inl ''contentForLLLLM is not defined''"
    by (simp add: assms(7) switch_action_part000_def)
  from assms(4) have "process_source e req (Some c) [] =
      (respond_unexpected ''contentForLLLLM is not defined'', [])"
    by (simp add: process_source_def s del: blank.simps)
  with process_part000_plain [OF assms(1,2,3,5,6)] s show ?thesis
    by (simp add: respond_unexpected_def)
qed

theorem rephrase_request_fails_witness:
  "\<not> blank (Some ''Hello'')
   \<and> \<not> startsWith ''Hello'' ''http://'' \<and> \<not> startsWith ''Hello'' ''https://''
   \<and> process_notion_content_part000 (env_of one_page gen_ok fetch_ok)
       \<lparr>content = Some ''Hello'', action = Some ''rephrase'', notionPageId = None\<rparr> =
      (\<lparr>code = 500,
        json_body = [(''error'', JString
            ''An unexpected error occurred during AI processing or Notion interaction.''),
          (''details'', JString ''contentForLLLLM is not defined'')]\<rparr>, [])"
proof -
  have b: "\<not> blank (Some ''Hello'')" by (simp add: trim_def is_space_def)
  have s: "\<not> startsWith ''Hello'' ''http://''" "\<not> startsWith ''Hello'' ''https://''"
    by simp_all
  from rephrase_request_fails
    [of "env_of one_page gen_ok fetch_ok"
      "\<lparr>content = Some ''Hello'', action = Some ''rephrase'', notionPageId = None\<rparr>" "''Hello''",
     OF _ _ _ b s]
  have "process_notion_content_part000 (env_of one_page gen_ok fetch_ok)
       \<lparr>content = Some ''Hello'', action = Some ''rephrase'', notionPageId = None\<rparr> =
      (\<lparr>code = 500,
        json_body = [(''error'', JString
            ''An unexpected error occurred during AI processing or Notion interaction.''),
          (''details'', JString ''contentForLLLLM is not defined'')]\<rparr>, [])"
    by (simp add: env_of_simps)
  with b s show ?thesis by (intro conjI)
qed

text \<open>
  C4, as the claim words it, fails in \<^verbatim>\<open>part_000\<close>: an action that is no \<^verbatim>\<open>case\<close> of the
  switch gets the prompt of the \<^verbatim>\<open>default\<close> branch, the generator is called and the reply
  is status 200.
\<close>

theorem unknown_action_counterexample:
  "''bogus'' \<notin> supported_actions_part000
   \<and> ''bogus'' \<notin> supported_actions
   \<and> process_notion_content_part000 (env_of one_page gen_ok fetch_ok)
       \<lparr>content = Some ''x'', action = Some ''bogus'', notionPageId = None\<rparr> =
      (\<lparr>code = 200,
        json_body = [(''success'', JBool True), (''message'', JString ''Content processed!''),
                     (''output'', JString ''Summary.'')]\<rparr>,
       [GenerateContent
          ''Analyze the following text and provide a general overview. Format using Notion-compatible markdown: x''])"
proof -
  have a: "''bogus'' \<notin> supported_actions_part000" "''bogus'' \<notin> supported_actions"
    by (simp_all add: supported_actions_part000_def supported_actions_def)
  have b: "process_notion_content_part000 (env_of one_page gen_ok fetch_ok)
       \<lparr>content = Some ''x'', action = Some ''bogus'', notionPageId = None\<rparr> =
      (\<lparr>code = 200,
        json_body = [(''success'', JBool True), (''message'', JString ''Content processed!''),
                     (''output'', JString ''Summary.'')]\<rparr>,
       [GenerateContent
          ''Analyze the following text and provide a general overview. Format using Notion-compatible markdown: x''])"
    by (simp add: process_notion_content_part000_def env_of_simps process_source_def
        trim_def is_space_def switch_action_part000_def write_back_def gen_ok_def)
  from a b show ?thesis by (intro conjI)
qed

text \<open>
  C4, amended. In \<^verbatim>\<open>server.js\<close>, for a request whose action is none of the five supported
  ones, no prompt is built for any text, and however the request ends the reply is not a
  success and only listing calls were made: neither the generator nor the append is
  called. When the request reaches prompt building (page identifier present, both clients
  initialised, content given or fetched and not blank) the reply is status 400 with the
  error \<^verbatim>\<open>Invalid AI action specified.\<close> (In \<^verbatim>\<open>part_000\<close> an unlisted action is not
  rejected.)
\<close>

theorem invalid_action_rejected:
  assumes "action req \<notin> Some ` supported_actions"
  shows "switch_action (action req) input = None
    \<and> (\<forall>r tr. process_notion_content e req = Some (r, tr) \<longrightarrow>
          code r \<noteq> 200 \<and> (\<forall>ev\<in>set tr. \<not> is_generate ev \<and> \<not> is_append ev))
    \<and> (notionPageId req = Some pid \<and> pid \<noteq> [] \<and>
        truthy (NOTION_API_KEY e) \<and> truthy (GEMINI_API_KEY e) \<longrightarrow>
          (\<not> blank (content req) \<longrightarrow>
             process_notion_content e req =
               Some (\<lparr>code = 400,
                       json_body = [(''error'', JString ''Invalid AI action specified.'')]\<rparr>, []))
        \<and> (\<forall>fetched tr. blank (content req) \<and>
               fetchNotionPageContent (Some (notion_api e)) pid = Some (Inr fetched, tr) \<and>
               \<not> blank (Some fetched) \<longrightarrow>
             process_notion_content e req =
               Some (\<lparr>code = 400,
                       json_body = [(''error'', JString ''Invalid AI action specified.'')]\<rparr>, tr)))"
proof -
  note none = switch_action_unsupported [OF assms]
  have rejected: "process_content client m p (action req) src tr0 =
      (error_reply 400 ''Invalid AI action specified.'', tr0)" for client m p src tr0
    by (simp add: process_content_def none)
  have a: "code r \<noteq> 200 \<and> (\<forall>ev\<in>set tr. \<not> is_generate ev \<and> \<not> is_append ev)"
    if run: "process_notion_content e req = Some (r, tr)" for r tr
  proof -
    from process_notion_content_cases [OF run]
    consider (early) c msg where "r = error_reply c msg" "c = 400 \<or> c = 500" "tr = []"
      | (failed) p err where "fetchNotionPageContent (Some (notion_api e)) p = Some (Inl err, tr)"
          "r = respond_failed err"
      | (empty) p fetched where "fetchNotionPageContent (Some (notion_api e)) p = Some (Inr fetched, tr)"
          "r = error_reply 400 ''No readable content found on the specified Notion page to process.''"
      | (fetched) p fetched tr0 where
          "fetchNotionPageContent (Some (notion_api e)) p = Some (Inr fetched, tr0)"
          "process_content (Some (notion_api e)) (gemini_api e) p (action req) fetched tr0 = (r, tr)"
      | (given) p where
          "process_content (Some (notion_api e)) (gemini_api e) p (action req) (the (content req)) [] = (r, tr)"
      by blast
    then show ?thesis
    proof cases
      case early
      then show ?thesis by (auto simp: error_reply_def)
    next
      case failed
      from fetchNotionPageContent_trace [OF failed(1)] have "\<forall>ev\<in>set tr. is_list ev" by auto
      with failed(2) list_event_kinds show ?thesis
        by (auto simp: respond_failed_def error_reply_def)
    next
      case empty
      from fetchNotionPageContent_trace [OF empty(1)] have "\<forall>ev\<in>set tr. is_list ev" by auto
      with empty(2) list_event_kinds show ?thesis
        by (auto simp: error_reply_def)
    next
      case fetched
      from fetchNotionPageContent_trace [OF fetched(1)] have "\<forall>ev\<in>set tr0. is_list ev" by auto
      with fetched(2) list_event_kinds show ?thesis
        by (auto simp: rejected error_reply_def)
    next
      case given
      then show ?thesis by (auto simp: rejected error_reply_def)
    qed
  qed
  have b: "process_notion_content e req =
      Some (\<lparr>code = 400, json_body = [(''error'', JString ''Invalid AI action specified.'')]\<rparr>, [])"
    if "notionPageId req = Some pid" "pid \<noteq> []" "truthy (NOTION_API_KEY e)"
      "truthy (GEMINI_API_KEY e)" "\<not> blank (content req)"
    using process_notion_content_ready [OF that(1-4)] that(5)
    by (simp add: rejected error_reply_def)
  have c: "process_notion_content e req =
      Some (\<lparr>code = 400, json_body = [(''error'', JString ''Invalid AI action specified.'')]\<rparr>, tr)"
    if "notionPageId req = Some pid" "pid \<noteq> []" "truthy (NOTION_API_KEY e)"
      "truthy (GEMINI_API_KEY e)" "blank (content req)"
      "fetchNotionPageContent (Some (notion_api e)) pid = Some (Inr fetched, tr)"
      "\<not> blank (Some fetched)" for fetched tr
    using process_notion_content_ready [OF that(1-4)] that(5-7)
    by (simp add: rejected error_reply_def del: blank.simps)
  from none a b c show ?thesis by (intro conjI impI allI; (elim conjE)?) blast+
qed

theorem invalid_action_rejected_witness:
  "Some ''bogus'' \<notin> Some ` supported_actions
   \<and> \<not> blank (Some ''x'')
   \<and> process_notion_content (env_of one_page gen_ok fetch_ok)
       \<lparr>content = Some ''x'', action = Some ''bogus'', notionPageId = Some ''P1''\<rparr> =
      Some (\<lparr>code = 400, json_body = [(''error'', JString ''Invalid AI action specified.'')]\<rparr>, [])
   \<and> blank None
   \<and> process_notion_content (env_of two_pages gen_ok fetch_ok)
       \<lparr>content = None, action = Some ''bogus'', notionPageId = Some ''P1''\<rparr> =
      Some (\<lparr>code = 400, json_body = [(''error'', JString ''Invalid AI action specified.'')]\<rparr>,
            [ListChildren ''P1'' None 100, ListChildren ''P1'' (Some ''c1'') 100])"
proof -
  have u: "Some ''bogus'' \<notin> Some ` supported_actions"
    by (simp add: supported_actions_def)
  have nb: "\<not> blank (Some ''x'')" by (simp add: trim_def is_space_def)
  have 1: "process_notion_content (env_of one_page gen_ok fetch_ok)
       \<lparr>content = Some ''x'', action = Some ''bogus'', notionPageId = Some ''P1''\<rparr> =
      Some (\<lparr>code = 400, json_body = [(''error'', JString ''Invalid AI action specified.'')]\<rparr>, [])"
    using invalid_action_rejected
      [of "\<lparr>content = Some ''x'', action = Some ''bogus'', notionPageId = Some ''P1''\<rparr>"
        _ "env_of one_page gen_ok fetch_ok" "''P1''"] u nb
    by (simp add: env_of_simps del: blank.simps)
  have 2: "process_notion_content (env_of two_pages gen_ok fetch_ok)
       \<lparr>content = None, action = Some ''bogus'', notionPageId = Some ''P1''\<rparr> =
      Some (\<lparr>code = 400, json_body = [(''error'', JString ''Invalid AI action specified.'')]\<rparr>,
            [ListChildren ''P1'' None 100, ListChildren ''P1'' (Some ''c1'') 100])"
    using invalid_action_rejected
      [of "\<lparr>content = None, action = Some ''bogus'', notionPageId = Some ''P1''\<rparr>"
        _ "env_of two_pages gen_ok fetch_ok" "''P1''"] u
    by (simp add: env_of_simps fetch_two_pages trim_def is_space_def nl_def)
  from u nb 1 2 show ?thesis by simp
qed

text \<open>
  C10, as the claim words it, fails: for the action \<^verbatim>\<open>ask_question\<close> the content field
  itself, the URL, is sent to the generator, as the question, next to the fetched body.
\<close>

theorem url_content_counterexample:
  "process_notion_content_part000 (env_of one_page gen_ok fetch_ok)
       \<lparr>content = Some ''https://example.com/a b'', action = Some ''ask_question'',
        notionPageId = None\<rparr> =
      (\<lparr>code = 200,
        json_body = [(''success'', JBool True), (''message'', JString ''Content processed!''),
                     (''output'', JString ''Summary.'')]\<rparr>,
       [Fetch ''https://api.allorigins.win/raw?url=https%3A%2F%2Fexample.com%2Fa%20b'',
        GenerateContent
          (''Based on the following text, answer the question: '' @ dquote
           @ ''https://example.com/a b'' @ dquote
           @ ''. If the answer is not in the provided content, state that. Format using Notion-compatible markdown.''
           @ nl @ indent @ ''---'' @ nl @ indent @ ''Fetched text'')])
   \<and> includes_str
        (''Based on the following text, answer the question: '' @ dquote
           @ ''https://example.com/a b'' @ dquote
           @ ''. If the answer is not in the provided content, state that. Format using Notion-compatible markdown.''
           @ nl @ indent @ ''---'' @ nl @ indent @ ''Fetched text'')
        ''https://example.com/a b''"
proof -
  have a: "process_notion_content_part000 (env_of one_page gen_ok fetch_ok)
       \<lparr>content = Some ''https://example.com/a b'', action = Some ''ask_question'',
        notionPageId = None\<rparr> =
      (\<lparr>code = 200,
        json_body = [(''success'', JBool True), (''message'', JString ''Content processed!''),
                     (''output'', JString ''Summary.'')]\<rparr>,
       [Fetch ''https://api.allorigins.win/raw?url=https%3A%2F%2Fexample.com%2Fa%20b'',
        GenerateContent
          (''Based on the following text, answer the question: '' @ dquote
           @ ''https://example.com/a b'' @ dquote
           @ ''. If the answer is not in the provided content, state that. Format using Notion-compatible markdown.''
           @ nl @ indent @ ''---'' @ nl @ indent @ ''Fetched text'')])"
    by (simp add: process_notion_content_part000_def env_of_simps fetch_ok_def proxyUrl_def
        encodeURIComponent_examples process_source_def trim_def is_space_def
        switch_action_part000_def write_back_def gen_ok_def)
  have b: "includes_str
        (''Based on the following text, answer the question: '' @ dquote
           @ ''https://example.com/a b'' @ dquote
           @ ''. If the answer is not in the provided content, state that. Format using Notion-compatible markdown.''
           @ nl @ indent @ ''---'' @ nl @ indent @ ''Fetched text'')
        ''https://example.com/a b''"
    by (simp add: dquote_def)
  from a b show ?thesis by (rule conjI)
qed

text \<open>
  C10, amended. In \<^verbatim>\<open>part_000\<close>, a request whose content starts with \<^verbatim>\<open>http://\<close> or
  \<^verbatim>\<open>https://\<close> is answered with status 500 and no call when a key is missing. With both
  keys set it makes one request, to the address \<^verbatim>\<open>https://api.allorigins.win/raw?url=\<close>
  followed by \<^verbatim>\<open>encodeURIComponent\<close> of the content, an address that no other content
  gives. If that request throws, answers with a status that is not ok, or its body cannot
  be read, the reply is status 400 and nothing else was called. Otherwise the handler goes
  on with the fetched body as its source: any prompt sent to the generator ends with the
  first 15000 characters of the body, and is the same whatever the content field holds,
  except for the action \<^verbatim>\<open>ask_question\<close>, whose template quotes the field as the question.
\<close>

theorem url_content_fetched:
  assumes "content req = Some url"
    and "startsWith url ''http://'' \<or> startsWith url ''https://''"
  shows
    "(let address = ''https://api.allorigins.win/raw?url='' @ encodeURIComponent url in
      (\<not> truthy (NOTION_API_KEY e) \<or> \<not> truthy (GEMINI_API_KEY e) \<longrightarrow>
        process_notion_content_part000 e req =
          (\<lparr>code = 500,
            json_body = [(''error'', JString ''Server API keys are not configured properly.'')]\<rparr>,
           []))
      \<and> (truthy (NOTION_API_KEY e) \<and> truthy (GEMINI_API_KEY e) \<longrightarrow>
         (\<forall>err. fetch e address = Inl err \<longrightarrow>
            process_notion_content_part000 e req =
              (\<lparr>code = 400,
                json_body = [(''error'', JString (''Could not fetch content from URL: '' @ url @ ''.'')),
                             (''details'', JString err)]\<rparr>, [Fetch address]))
       \<and> (\<forall>response. fetch e address = Inr response \<and> \<not> ok response \<longrightarrow>
            process_notion_content_part000 e req =
              (\<lparr>code = 400,
                json_body = [(''error'', JString (''Could not fetch content from URL: '' @ url @ ''.'')),
                             (''details'', JString (''HTTP error! status: '' @ show_nat (status response)))]\<rparr>,
               [Fetch address]))
       \<and> (\<forall>response err. fetch e address = Inr response \<and> ok response \<and>
              text_body response = Inl err \<longrightarrow>
            process_notion_content_part000 e req =
              (\<lparr>code = 400,
                json_body = [(''error'', JString (''Could not fetch content from URL: '' @ url @ ''.'')),
                             (''details'', JString err)]\<rparr>, [Fetch address]))
       \<and> (\<forall>response body. fetch e address = Inr response \<and> ok response \<and>
              text_body response = Inr body \<longrightarrow>
            process_notion_content_part000 e req =
              process_source e req (Some body) [Fetch address]
            \<and> (\<forall>r tr prompt. process_notion_content_part000 e req = (r, tr) \<and>
                  GenerateContent prompt \<in> set tr \<longrightarrow>
                  switch_action_part000 (action req) (Some url) (take 15000 body) = Inr prompt
                  \<and> (\<exists>template. prompt = template @ take 15000 body)
                  \<and> (action req \<noteq> Some ''ask_question'' \<longrightarrow>
                       (\<forall>field. switch_action_part000 (action req) field (take 15000 body) =
                          Inr prompt)))))
      \<and> (\<forall>url'. ''https://api.allorigins.win/raw?url='' @ encodeURIComponent url' = address \<longrightarrow>
            url' = url))"
proof -
  define address where "address = ''https://api.allorigins.win/raw?url='' @ encodeURIComponent url"
  have pu: "proxyUrl url = address"
    by (simp add: proxyUrl_def address_def)
  have unconfigured: "\<not> truthy (NOTION_API_KEY e) \<or> \<not> truthy (GEMINI_API_KEY e) \<longrightarrow>
        process_notion_content_part000 e req =
          (\<lparr>code = 500,
            json_body = [(''error'', JString ''Server API keys are not configured properly.'')]\<rparr>,
           [])"
    by (auto simp: process_notion_content_part000_def error_reply_def)
  have only: "\<forall>url'. ''https://api.allorigins.win/raw?url='' @ encodeURIComponent url' = address \<longrightarrow>
      url' = url"
    using encodeURIComponent_inj by (simp add: address_def)
  have configured: "truthy (NOTION_API_KEY e) \<and> truthy (GEMINI_API_KEY e) \<longrightarrow>
         (\<forall>err. fetch e address = Inl err \<longrightarrow>
            process_notion_content_part000 e req =
              (\<lparr>code = 400,
                json_body = [(''error'', JString (''Could not fetch content from URL: '' @ url @ ''.'')),
                             (''details'', JString err)]\<rparr>, [Fetch address]))
       \<and> (\<forall>response. fetch e address = Inr response \<and> \<not> ok response \<longrightarrow>
            process_notion_content_part000 e req =
              (\<lparr>code = 400,
                json_body = [(''error'', JString (''Could not fetch content from URL: '' @ url @ ''.'')),
                             (''details'', JString (''HTTP error! status: '' @ show_nat (status response)))]\<rparr>,
               [Fetch address]))
       \<and> (\<forall>response err. fetch e address = Inr response \<and> ok response \<and>
              text_body response = Inl err \<longrightarrow>
            process_notion_content_part000 e req =
              (\<lparr>code = 400,
                json_body = [(''error'', JString (''Could not fetch content from URL: '' @ url @ ''.'')),
                             (''details'', JString err)]\<rparr>, [Fetch address]))
       \<and> (\<forall>response body. fetch e address = Inr response \<and> ok response \<and>
              text_body response = Inr body \<longrightarrow>
            process_notion_content_part000 e req =
              process_source e req (Some body) [Fetch address]
            \<and> (\<forall>r tr prompt. process_notion_content_part000 e req = (r, tr) \<and>
                  GenerateContent prompt \<in> set tr \<longrightarrow>
                  switch_action_part000 (action req) (Some url) (take 15000 body) = Inr prompt
                  \<and> (\<exists>template. prompt = template @ take 15000 body)
                  \<and> (action req \<noteq> Some ''ask_question'' \<longrightarrow>
                       (\<forall>field. switch_action_part000 (action req) field (take 15000 body) =
                          Inr prompt))))"
  proof (rule impI)
    assume "truthy (NOTION_API_KEY e) \<and> truthy (GEMINI_API_KEY e)"
    then have keys: "truthy (NOTION_API_KEY e)" "truthy (GEMINI_API_KEY e)" by simp_all
    note eq = process_part000_url [OF keys assms, unfolded pu]
    have a: "process_notion_content_part000 e req =
        (\<lparr>code = 400,
          json_body = [(''error'', JString (''Could not fetch content from URL: '' @ url @ ''.'')),
                       (''details'', JString err)]\<rparr>, [Fetch address])"
      if "fetch e address = Inl err" for err
      by (simp add: eq that respond_url_failed_def)
    have b: "process_notion_content_part000 e req =
        (\<lparr>code = 400,
          json_body = [(''error'', JString (''Could not fetch content from URL: '' @ url @ ''.'')),
                       (''details'', JString (''HTTP error! status: '' @ show_nat (status response)))]\<rparr>,
         [Fetch address])"
      if "fetch e address = Inr response" "\<not> ok response" for response
      by (simp add: eq that respond_url_failed_def)
    have c: "process_notion_content_part000 e req =
        (\<lparr>code = 400,
          json_body = [(''error'', JString (''Could not fetch content from URL: '' @ url @ ''.'')),
                       (''details'', JString err)]\<rparr>, [Fetch address])"
      if "fetch e address = Inr response" "ok response" "text_body response = Inl err"
      for response err
      by (simp add: eq that respond_url_failed_def)
    have d: "process_notion_content_part000 e req =
        process_source e req (Some body) [Fetch address]"
      if "fetch e address = Inr response" "ok response" "text_body response = Inr body"
      for response body
      by (simp add: eq that)
    have d1: "switch_action_part000 (action req) (Some url) (take 15000 body) = Inr prompt"
      if "fetch e address = Inr response" "ok response" "text_body response = Inr body"
        "process_notion_content_part000 e req = (r, tr)" "GenerateContent prompt \<in> set tr"
      for response body r tr prompt
    proof -
      from d [OF that(1-3)] that(4)
      have run: "process_source e req (Some body) [Fetch address] = (r, tr)" by simp
      have "\<forall>ev\<in>set [Fetch address]. \<not> is_generate ev" by simp
      from process_source_prompt [OF run this that(5)] show ?thesis
        by (simp add: assms(1))
    qed
    have d2: "\<exists>template. prompt = template @ take 15000 body"
      if "switch_action_part000 (action req) (Some url) (take 15000 body) = Inr prompt"
      for body prompt
      using that by (rule switch_action_part000_suffix)
    have d3: "switch_action_part000 (action req) field (take 15000 body) = Inr prompt"
      if "switch_action_part000 (action req) (Some url) (take 15000 body) = Inr prompt"
        "action req \<noteq> Some ''ask_question''"
      for body prompt field
      using switch_action_part000_question [OF that(2), of field "take 15000 body" "Some url"] that(1)
      by simp
    show "(\<forall>err. fetch e address = Inl err \<longrightarrow>
            process_notion_content_part000 e req =
              (\<lparr>code = 400,
                json_body = [(''error'', JString (''Could not fetch content from URL: '' @ url @ ''.'')),
                             (''details'', JString err)]\<rparr>, [Fetch address]))
       \<and> (\<forall>response. fetch e address = Inr response \<and> \<not> ok response \<longrightarrow>
            process_notion_content_part000 e req =
              (\<lparr>code = 400,
                json_body = [(''error'', JString (''Could not fetch content from URL: '' @ url @ ''.'')),
                             (''details'', JString (''HTTP error! status: '' @ show_nat (status response)))]\<rparr>,
               [Fetch address]))
       \<and> (\<forall>response err. fetch e address = Inr response \<and> ok response \<and>
              text_body response = Inl err \<longrightarrow>
            process_notion_content_part000 e req =
              (\<lparr>code = 400,
                json_body = [(''error'', JString (''Could not fetch content from URL: '' @ url @ ''.'')),
                             (''details'', JString err)]\<rparr>, [Fetch address]))
       \<and> (\<forall>response body. fetch e address = Inr response \<and> ok response \<and>
              text_body response = Inr body \<longrightarrow>
            process_notion_content_part000 e req =
              process_source e req (Some body) [Fetch address]
            \<and> (\<forall>r tr prompt. process_notion_content_part000 e req = (r, tr) \<and>
                  GenerateContent prompt \<in> set tr \<longrightarrow>
                  switch_action_part000 (action req) (Some url) (take 15000 body) = Inr prompt
                  \<and> (\<exists>template. prompt = template @ take 15000 body)
                  \<and> (action req \<noteq> Some ''ask_question'' \<longrightarrow>
                       (\<forall>field. switch_action_part000 (action req) field (take 15000 body) =
                          Inr prompt))))"
    proof (intro conjI allI impI; (elim conjE)?)
      fix err assume "fetch e address = Inl err"
      then show "process_notion_content_part000 e req =
        (\<lparr>code = 400,
          json_body = [(''error'', JString (''Could not fetch content from URL: '' @ url @ ''.'')),
                       (''details'', JString err)]\<rparr>, [Fetch address])" by (rule a)
    next
      fix response assume "fetch e address = Inr response" "\<not> ok response"
      then show "process_notion_content_part000 e req =
        (\<lparr>code = 400,
          json_body = [(''error'', JString (''Could not fetch content from URL: '' @ url @ ''.'')),
                       (''details'', JString (''HTTP error! status: '' @ show_nat (status response)))]\<rparr>,
         [Fetch address])" by (rule b)
    next
      fix response err
      assume "fetch e address = Inr response" "ok response" "text_body response = Inl err"
      then show "process_notion_content_part000 e req =
        (\<lparr>code = 400,
          json_body = [(''error'', JString (''Could not fetch content from URL: '' @ url @ ''.'')),
                       (''details'', JString err)]\<rparr>, [Fetch address])" by (rule c)
    next
      fix response body
      assume "fetch e address = Inr response" "ok response" "text_body response = Inr body"
      then show "process_notion_content_part000 e req =
        process_source e req (Some body) [Fetch address]" by (rule d)
    next
      fix response body r tr prompt
      assume "fetch e address = Inr response" "ok response" "text_body response = Inr body"
        "process_notion_content_part000 e req = (r, tr)" "GenerateContent prompt \<in> set tr"
      then show "switch_action_part000 (action req) (Some url) (take 15000 body) = Inr prompt"
        by (rule d1)
    next
      fix response body r tr prompt
      assume "fetch e address = Inr response" "ok response" "text_body response = Inr body"
        "process_notion_content_part000 e req = (r, tr)" "GenerateContent prompt \<in> set tr"
      then have "switch_action_part000 (action req) (Some url) (take 15000 body) = Inr prompt"
        by (rule d1)
      then show "\<exists>template. prompt = template @ take 15000 body" by (rule d2)
    next
      fix response body r tr prompt field
      assume "fetch e address = Inr response" "ok response" "text_body response = Inr body"
        "process_notion_content_part000 e req = (r, tr)" "GenerateContent prompt \<in> set tr"
      then have "switch_action_part000 (action req) (Some url) (take 15000 body) = Inr prompt"
        by (rule d1)
      moreover assume "action req \<noteq> Some ''ask_question''"
      ultimately show "switch_action_part000 (action req) field (take 15000 body) = Inr prompt"
        by (rule d3)
    qed
  qed
  show ?thesis
    unfolding Let_def address_def [symmetric]
    by (rule conjI [OF unconfigured conjI [OF configured only]])
qed

theorem url_content_fetched_witness:
  "startsWith ''https://example.com/a b'' ''https://''
   \<and> process_notion_content_part000 (env_of one_page gen_ok fetch_fails)
       \<lparr>content = Some ''https://example.com/a b'', action = Some ''notes'', notionPageId = None\<rparr> =
      (\<lparr>code = 400,
        json_body = [(''error'', JString ''Could not fetch content from URL: https://example.com/a b.''),
                     (''details'', JString ''fetch failed'')]\<rparr>,
       [Fetch ''https://api.allorigins.win/raw?url=https%3A%2F%2Fexample.com%2Fa%20b''])
   \<and> startsWith ''http://example.org/?q=1'' ''http://''
   \<and> process_notion_content_part000 (env_of one_page gen_ok fetch_ok)
       \<lparr>content = Some ''http://example.org/?q=1'', action = Some ''bogus'', notionPageId = None\<rparr> =
      (\<lparr>code = 200,
        json_body = [(''success'', JBool True), (''message'', JString ''Content processed!''),
                     (''output'', JString ''Summary.'')]\<rparr>,
       [Fetch ''https://api.allorigins.win/raw?url=http%3A%2F%2Fexample.org%2F%3Fq%3D1'',
        GenerateContent
          ''Analyze the following text and provide a general overview. Format using Notion-compatible markdown: Fetched text''])"
proof -
  have s1: "startsWith ''https://example.com/a b'' ''https://''" by simp
  then have s1': "startsWith ''https://example.com/a b'' ''http://'' \<or>
      startsWith ''https://example.com/a b'' ''https://''" by (rule disjI2)
  have s2: "startsWith ''http://example.org/?q=1'' ''http://''" by simp
  then have s2': "startsWith ''http://example.org/?q=1'' ''http://'' \<or>
      startsWith ''http://example.org/?q=1'' ''https://''" by (rule disjI1)
  have 1: "process_notion_content_part000 (env_of one_page gen_ok fetch_fails)
       \<lparr>content = Some ''https://example.com/a b'', action = Some ''notes'', notionPageId = None\<rparr> =
      (\<lparr>code = 400,
        json_body = [(''error'', JString ''Could not fetch content from URL: https://example.com/a b.''),
                     (''details'', JString ''fetch failed'')]\<rparr>,
       [Fetch ''https://api.allorigins.win/raw?url=https%3A%2F%2Fexample.com%2Fa%20b''])"
    using url_content_fetched
      [of "\<lparr>content = Some ''https://example.com/a b'', action = Some ''notes'', notionPageId = None\<rparr>"
        "''https://example.com/a b''" "env_of one_page gen_ok fetch_fails", OF _ s1']
    by (simp add: Let_def env_of_simps fetch_fails_def encodeURIComponent_examples)
  have "process_notion_content_part000 (env_of one_page gen_ok fetch_ok)
       \<lparr>content = Some ''http://example.org/?q=1'', action = Some ''bogus'', notionPageId = None\<rparr> =
      process_source (env_of one_page gen_ok fetch_ok)
       \<lparr>content = Some ''http://example.org/?q=1'', action = Some ''bogus'', notionPageId = None\<rparr>
       (Some ''Fetched text'')
       [Fetch ''https://api.allorigins.win/raw?url=http%3A%2F%2Fexample.org%2F%3Fq%3D1'']"
    using url_content_fetched
      [of "\<lparr>content = Some ''http://example.org/?q=1'', action = Some ''bogus'', notionPageId = None\<rparr>"
        "''http://example.org/?q=1''" "env_of one_page gen_ok fetch_ok", OF _ s2']
    by (simp add: Let_def env_of_simps fetch_ok_def encodeURIComponent_examples)
  then have 2: "process_notion_content_part000 (env_of one_page gen_ok fetch_ok)
       \<lparr>content = Some ''http://example.org/?q=1'', action = Some ''bogus'', notionPageId = None\<rparr> =
      (\<lparr>code = 200,
        json_body = [(''success'', JBool True), (''message'', JString ''Content processed!''),
                     (''output'', JString ''Summary.'')]\<rparr>,
       [Fetch ''https://api.allorigins.win/raw?url=http%3A%2F%2Fexample.org%2F%3Fq%3D1'',
        GenerateContent
          ''Analyze the following text and provide a general overview. Format using Notion-compatible markdown: Fetched text''])"
    by (simp add: process_source_def env_of_simps trim_def is_space_def switch_action_part000_def
        write_back_def gen_ok_def)
  from s1 1 s2 2 show ?thesis by (intro conjI)
qed

end
